theory Spec2Isabelle
  imports Main
begin

section \<open>JavaScript values and built-ins that build.ts relies on\<close>

text \<open>
  Strings are byte lists. Values that the source only hands on to a collaborator are
  kept as JSON-like trees. An exception is a value: the \<open>TypeError\<close> the engine raises
  when the code reads a property of \<open>undefined\<close> or calls something that is not a
  function, or a rejection of one of the collaborators.
\<close>

datatype json =
    JNull
  | JBool bool
  | JNum int
  | JStr string
  | JArr "json list"
  | JObj "(string \<times> json) list"

text \<open>\<open>x || y\<close> on optional strings: \<open>undefined\<close> and the empty string are falsy.\<close>

definition truthy :: "string option \<Rightarrow> bool" where
  "truthy v = (case v of None \<Rightarrow> False | Some s \<Rightarrow> s \<noteq> [])"

definition js_or :: "string option \<Rightarrow> string option \<Rightarrow> string option" where
  "js_or a b = (if truthy a then a else b)"

text \<open>String conversion inside a template literal or a \<open>+\<close> with a string.\<close>

definition to_string :: "string option \<Rightarrow> string" where
  "to_string v = (case v of None \<Rightarrow> ''undefined'' | Some s \<Rightarrow> s)"

text \<open>\<open>Array.prototype.join\<close>.\<close>

fun js_join :: "string \<Rightarrow> string list \<Rightarrow> string" where
  "js_join sep [] = []"
| "js_join sep [x] = x"
| "js_join sep (x # y # ys) = x @ sep @ js_join sep (y # ys)"

subsection \<open>Plain objects used as dictionaries\<close>

text \<open>
  \<open>routeTypes\<close> is a plain object \<open>{}\<close>. Its own properties are kept in insertion order.
  Two facts of the language show through the dictionary:
  \<^item> a property read falls back to \<open>Object.prototype\<close>, so \<open>routeTypes[k]\<close> is a truthy
    value that is not an array when \<open>k\<close> is one of the inherited names;
  \<^item> \<open>Object.entries\<close> lists the own keys that are array indices first, in ascending
    numeric order, and the remaining string keys in insertion order.
\<close>

definition inherited_names :: "string list" where
  "inherited_names =
     [''constructor'', ''__proto__'', ''hasOwnProperty'', ''isPrototypeOf'',
      ''propertyIsEnumerable'', ''toLocaleString'', ''toString'', ''valueOf'',
      ''__defineGetter__'', ''__defineSetter__'', ''__lookupGetter__'', ''__lookupSetter__'']"

definition is_digit :: "char \<Rightarrow> bool" where
  "is_digit c = (48 \<le> (of_char c :: nat) \<and> (of_char c :: nat) \<le> 57)"

definition digits_value :: "string \<Rightarrow> int" where
  "digits_value s = foldl (\<lambda>n c. 10 * n + (of_char c - 48)) 0 s"

text \<open>
  An array index is the canonical decimal form of an integer from 0 to \<open>2^32 - 2\<close>:
  digits only, no leading zero unless the string is \<open>0\<close> itself.
\<close>

definition is_array_index :: "string \<Rightarrow> bool" where
  "is_array_index s =
     (s \<noteq> [] \<and> list_all is_digit s \<and> (s = ''0'' \<or> hd s \<noteq> CHR ''0'')
      \<and> digits_value s < 4294967295)"

type_synonym 'v js_object = "(string \<times> 'v) list"

definition Object_entries :: "'v js_object \<Rightarrow> (string \<times> 'v) list" where
  "Object_entries obj =
     sort_key (\<lambda>kv. digits_value (fst kv)) (filter (\<lambda>kv. is_array_index (fst kv)) obj)
     @ filter (\<lambda>kv. \<not> is_array_index (fst kv)) obj"

subsection \<open>What the bundling engine throws\<close>

text \<open>
  The handler of the failed \<open>rollup.rollup\<close> promise reads the thrown value dynamically:
  the fields \<open>id\<close>, \<open>loc\<close>, \<open>location\<close>, \<open>text\<close> and \<open>frame\<close> of an error, each possibly
  absent, and the property \<open>errors\<close> of the thrown value, which may be absent, a list
  (whose entries may be \<open>null\<close> or \<open>undefined\<close>) or something that cannot be iterated.
  A thrown value that is not an object is a \<open>Primitive\<close>.
\<close>

record position =
  line :: nat
  column :: nat

record diagnostic =
  d_id :: "string option"
  d_loc :: "position option"
  d_location :: "position option"
  d_text :: "string option"
  d_frame :: "string option"

datatype errors_property = Absent | Errors "diagnostic option list" | NotIterable

datatype failure = Primitive string | Failure diagnostic errors_property

datatype exn =
    TypeError string
  | Rejected string
  | BundlerFailure failure

section \<open>The build context\<close>

datatype handler_ref = ModulePath string | InlineFunction

record handler_descriptor =
  route :: "string option"
  handler :: handler_ref

record server_asset =
  baseName :: string
  dir :: string

record nitro_options =
  buildDir :: string
  rootDir :: string
  srcDir :: string
  handlers :: "handler_descriptor list"
  bundledStorage :: "string list"
  preset :: string
  serverAssets :: "server_asset list"
  output_dir :: string
  output_serverDir :: string
  dev :: bool
  logLevel :: int
  commands_preview :: "string option"
  commands_deploy :: "string option"
  generateTsConfig :: bool
  internalPaths :: bool
  scanDirs :: "string list"
  watchOptions :: json

text \<open>
  \<open>unimport\<close> is \<open>None\<close> when \<open>nitro.unimport\<close> is not set, and otherwise holds the text
  \<open>nitro.unimport.generateTypeDeclarations({ exportHelper: false }).trim()\<close>.
\<close>

record nitro =
  options :: nitro_options
  scannedHandlers :: "handler_descriptor list"
  unimport :: "string option"

subsection \<open>Collaborators\<close>

text \<open>
  The path functions come from the \<open>pathe\<close> package and the serialiser is the engine's
  \<open>JSON.stringify\<close>; \<open>getRollupConfig\<close>, \<open>runtimeDir\<close> and \<open>GLOB_SCAN_PATTERN\<close> are
  imported from modules of the repository that build.ts only uses. All are parameters.
  \<open>isAbsolute_undefined\<close> is what \<open>isAbsolute(undefined)\<close> does: \<open>None\<close> when it returns
  \<open>false\<close>, as the regular-expression test of \<open>pathe\<close> does, and the exception for an
  implementation that rejects an argument that is not a string.
  \<open>rewrite_dot_slash rOutput input\<close> is the engine's
  \<open>input.replace(/\s\.\/([^\s]*)/g, ` ${rOutput}/$1`)\<close> and \<open>now\<close> the text that
  \<open>new Date()\<close> serialises to.
\<close>

datatype rollup_config = RollupConfig (cfg_output: json) (cfg_rest: json)

record env =
  relative :: "string \<Rightarrow> string \<Rightarrow> string"
  join :: "string list \<Rightarrow> string"
  resolve :: "string list \<Rightarrow> string"
  dirname :: "string \<Rightarrow> string"
  isAbsolute :: "string \<Rightarrow> bool"
  isAbsolute_undefined :: "exn option"
  cwd :: string
  stringify :: "json \<Rightarrow> string"
  stringify_pretty :: "json \<Rightarrow> string"
  runtimeDir :: string
  GLOB_SCAN_PATTERN :: string
  getRollupConfig :: "nitro \<Rightarrow> rollup_config"
  rewrite_dot_slash :: "string \<Rightarrow> string \<Rightarrow> string"
  now :: string

subsection \<open>Effects\<close>

text \<open>
  Every call that leaves build.ts is recorded, in the order the calls are made.
  \<open>FsMkdir d\<close> is \<open>fsp.mkdir(d, { recursive: true })\<close>, \<open>FsWriteFile p c\<close> is
  \<open>fsp.writeFile(p, c, 'utf8')\<close> and \<open>UtilsWriteFile\<close> the \<open>writeFile\<close> helper of the
  repository's \<open>utils\<close> module. \<open>RollupWatch c w h\<close> is
  \<open>rollup.watch(defu(c, { watch: { chokidar: w } }))\<close> returning the handle \<open>h\<close>.
  \<open>PromiseAll\<close> holds the calls of tasks that run concurrently, one list per task:
  no order between the tasks is fixed.
\<close>

datatype effect =
    LogStart string
  | LogSuccess string
  | LogError string
  | CallHook string
  | UtilsWriteFile string string
  | FsMkdir string
  | FsWriteFile string string
  | PromiseAll "effect list list"
  | ScanHandlers
  | SnapshotStorage
  | Rollup rollup_config
  | BundleWrite json
  | PrintFSTree string
  | RollupWatch rollup_config json nat
  | WatcherClose nat
  | ChokidarWatch "string list"
  | ChokidarClose
  | DebouncedReload

record state =
  nitro :: nitro
  effects :: "effect list"

definition emit :: "effect list \<Rightarrow> state \<Rightarrow> state" where
  "emit es s = s\<lparr>effects := effects s @ es\<rparr>"

section \<open>writeTypes\<close>

definition is_lower :: "char \<Rightarrow> bool" where
  "is_lower c = (97 \<le> (of_char c :: nat) \<and> (of_char c :: nat) \<le> 122)"

text \<open>
  \<open>s.replace(/\.[a-z]+$/, '')\<close>: the pattern ends at the end of the string, so it matches
  exactly when the longest run of lower-case letters at the end is not empty and has a
  dot before it; the dot and the run are removed.
\<close>

definition strip_extension :: "string \<Rightarrow> string" where
  "strip_extension s =
     (let r = rev s; run = takeWhile is_lower r; rest = dropWhile is_lower r
      in if run \<noteq> [] \<and> rest \<noteq> [] \<and> hd rest = CHR ''.'' then rev (tl rest) else s)"

definition type_expression :: "string \<Rightarrow> string" where
  "type_expression relativePath =
     ''Awaited<ReturnType<typeof import('' @ [CHR 0x27] @ relativePath @ [CHR 0x27]
       @ '').default>>''"

text \<open>The guard of the loop: \<open>typeof mw.handler !== 'string' || !mw.route\<close> skips.\<close>

definition contributes :: "handler_descriptor \<Rightarrow> bool" where
  "contributes mw =
     (case handler mw of InlineFunction \<Rightarrow> False | ModulePath _ \<Rightarrow> truthy (route mw))"

definition relativePath_of :: "env \<Rightarrow> nitro \<Rightarrow> handler_descriptor \<Rightarrow> string" where
  "relativePath_of e n mw =
     (case handler mw of
        ModulePath h \<Rightarrow>
          strip_extension (relative e (join e [buildDir (options n), ''types'']) h)
      | InlineFunction \<Rightarrow> [])"

text \<open>
  \<open>routeTypes[r] = routeTypes[r] || []\<close> followed by \<open>routeTypes[r].push(t)\<close>. An own
  property is extended in place. Without one, an inherited name makes the read truthy,
  the value is not an array and \<open>push\<close> is not a function; any other name starts a new
  array at the end of the own properties.
\<close>

definition push_route :: "string \<Rightarrow> string \<Rightarrow> string list js_object \<Rightarrow> exn + string list js_object" where
  "push_route r t obj =
     (if r \<in> set (map fst obj)
      then Inr (map (\<lambda>kv. if fst kv = r then (fst kv, snd kv @ [t]) else kv) obj)
      else if r \<in> set inherited_names
      then Inl (TypeError ''routeTypes[mw.route].push is not a function'')
      else Inr (obj @ [(r, [t])]))"

fun collect_routeTypes ::
  "env \<Rightarrow> nitro \<Rightarrow> handler_descriptor list \<Rightarrow> string list js_object \<Rightarrow> exn + string list js_object" where
  "collect_routeTypes e n [] obj = Inr obj"
| "collect_routeTypes e n (mw # mws) obj =
     (if \<not> contributes mw then collect_routeTypes e n mws obj
      else case push_route (the (route mw)) (type_expression (relativePath_of e n mw)) obj of
             Inl x \<Rightarrow> Inl x
           | Inr obj' \<Rightarrow> collect_routeTypes e n mws obj')"

definition middleware :: "nitro \<Rightarrow> handler_descriptor list" where
  "middleware n = scannedHandlers n @ handlers (options n)"

definition interface_line :: "string \<times> string list \<Rightarrow> string" where
  "interface_line kv =
     ''    '' @ [CHR 0x27] @ fst kv @ [CHR 0x27] @ '': '' @ js_join '' | '' (snd kv)"

definition manifest_lines :: "nitro \<Rightarrow> (string \<times> string list) list \<Rightarrow> string list" where
  "manifest_lines n entries =
     [''// Generated by nitro'',
      ''declare module 'nitropack' {'',
      ''  type Awaited<T> = T extends PromiseLike<infer U> ? Awaited<U> : T'',
      ''  interface InternalApi {'']
     @ map interface_line entries
     @ [''  }'',
        ''}'']
     @ (case unimport n of None \<Rightarrow> [] | Some decls \<Rightarrow> [decls])
     @ [''export {}'']"

definition tsConfig :: "env \<Rightarrow> nitro \<Rightarrow> json" where
  "tsConfig e n =
     (let opts = options n; typesDir = join e [buildDir opts, ''types''] in
      JObj
       [(''compilerOptions'',
           JObj [(''target'', JStr ''ESNext''),
                 (''module'', JStr ''ESNext''),
                 (''moduleResolution'', JStr ''Node''),
                 (''allowJs'', JBool True),
                 (''resolveJsonModule'', JBool True),
                 (''paths'',
                    if internalPaths opts
                    then JObj [(''#internal/nitro'', JArr [JStr (join e [runtimeDir e, ''index''])]),
                               (''#internal/nitro/*'', JArr [JStr (join e [runtimeDir e, ''*''])])]
                    else JObj [])]),
        (''include'',
           JArr ([JStr ''./nitro.d.ts'',
                  JStr (join e [relative e typesDir (rootDir opts), ''**/*''])]
                 @ (if srcDir opts \<noteq> rootDir opts
                    then [JStr (join e [relative e typesDir (srcDir opts), ''**/*''])]
                    else [])))])"

definition writeTypes :: "env \<Rightarrow> state \<Rightarrow> state \<times> exn option" where
  "writeTypes e s =
     (let n = nitro s in
      case collect_routeTypes e n (middleware n) [] of
        Inl x \<Rightarrow> (s, Some x)
      | Inr routeTypes \<Rightarrow>
          (emit
            ([UtilsWriteFile (join e [buildDir (options n), ''types/nitro.d.ts''])
                (js_join [CHR 0x0A] (manifest_lines n (Object_entries routeTypes)))]
             @ (if generateTsConfig (options n)
                then [UtilsWriteFile (join e [buildDir (options n), ''types/tsconfig.json''])
                        (stringify_pretty e (tsConfig e n))]
                else []))
            s,
           None))"

section \<open>The storage snapshot\<close>

text \<open>\<open>path.replace(/:/g, '/')\<close>.\<close>

definition replace_colons :: "string \<Rightarrow> string" where
  "replace_colons path = map (\<lambda>c. if c = CHR '':'' then CHR ''/'' else c) path"

text \<open>
  One callback of the \<open>Promise.all\<close>: a value that is not a string is serialised, the
  parent directory is created recursively, then the file is written.
\<close>

definition snapshot_task :: "env \<Rightarrow> string \<Rightarrow> string \<times> json \<Rightarrow> effect list" where
  "snapshot_task e storageDir entry =
     (let contents = (case snd entry of JStr str \<Rightarrow> str | v \<Rightarrow> stringify e v);
          fsPath = join e [storageDir, replace_colons (fst entry)]
      in [FsMkdir (dirname e fsPath), FsWriteFile fsPath contents])"

text \<open>
  \<open>data\<close> is what \<open>snapshotStorage(nitro)\<close> settles to: its rejection, or the entries of
  the mapping as \<open>Object.entries\<close> lists them. File-system calls are recorded as issued;
  their own failures are outside the model.
\<close>

definition priv_snapshot :: "env \<Rightarrow> exn + (string \<times> json) list \<Rightarrow> state \<Rightarrow> state \<times> exn option" where
  "priv_snapshot e data s =
     (let n = nitro s; opts = options n in
      if bundledStorage opts = [] \<or> preset opts = ''nitro-prerender'' then (s, None)
      else
        let storageDir = resolve e [buildDir opts, ''snapshot''];
            registered = s\<lparr>nitro := n\<lparr>options := opts\<lparr>serverAssets :=
                             serverAssets opts @ [\<lparr>baseName = ''nitro:bundled'', dir = storageDir\<rparr>]\<rparr>\<rparr>\<rparr>;
            asked = emit [SnapshotStorage] registered
        in case data of
             Inl x \<Rightarrow> (asked, Some x)
           | Inr entries \<Rightarrow> (emit [PromiseAll (map (snapshot_task e storageDir) entries)] asked, None))"

section \<open>The one-shot build\<close>

fun decimal :: "nat \<Rightarrow> string" where
  "decimal n = (if n < 10 then [char_of (48 + n)] else decimal (n div 10) @ [char_of (48 + n mod 10)])"

text \<open>
  The body of the loop in the \<open>try\<close> block for one entry of the error list; \<open>whole\<close> is the
  thrown value itself. Reading \<open>error.id\<close> of a \<open>null\<close> or \<open>undefined\<close> entry throws.
\<close>

definition format_error :: "env \<Rightarrow> diagnostic \<Rightarrow> diagnostic option \<Rightarrow> exn + string" where
  "format_error e whole entry =
     (case entry of
        None \<Rightarrow> Inl (TypeError ''Cannot read properties of undefined (reading 'id')'')
      | Some error \<Rightarrow>
          (let ident = js_or (d_id error) (d_id whole) in
           case (case ident of None \<Rightarrow> (case isAbsolute_undefined e of Some x \<Rightarrow> Inl x | None \<Rightarrow> Inr None)
                             | Some i \<Rightarrow> Inr (if isAbsolute e i then Some (relative e (cwd e) i) else Some i)) of
             Inl x \<Rightarrow> Inl x
           | Inr path \<Rightarrow>
               (let location = (case d_loc error of Some l \<Rightarrow> Some l | None \<Rightarrow> d_location error);
                    path' = (case location of
                               None \<Rightarrow> to_string path
                             | Some l \<Rightarrow> to_string path @ '':'' @ decimal (line l) @ '':'' @ decimal (column l))
                in Inr (''Rollup error while processing `'' @ path' @ ''`'' @ [CHR 0x0A] @ [CHR 0x0A]
                        @ to_string (js_or (d_text error) (d_frame error))))))"

text \<open>The loop: every diagnostic logged before an exception stays logged.\<close>

fun format_errors :: "env \<Rightarrow> diagnostic \<Rightarrow> diagnostic option list \<Rightarrow> effect list \<times> exn option" where
  "format_errors e whole [] = ([], None)"
| "format_errors e whole (entry # entries) =
     (case format_error e whole entry of
        Inl x \<Rightarrow> ([], Some x)
      | Inr message \<Rightarrow>
          (let rest = format_errors e whole entries in (LogError message # fst rest, snd rest)))"

text \<open>
  The \<open>try\<close> block: \<open>'errors' in _error\<close> throws on a value that is not an object, and
  \<open>for ... of\<close> throws on a value that cannot be iterated.
\<close>

definition try_block :: "env \<Rightarrow> failure \<Rightarrow> effect list \<times> exn option" where
  "try_block e thrown =
     (case thrown of
        Primitive _ \<Rightarrow> ([], Some (TypeError ''Cannot use 'in' operator to search for 'errors' ''))
      | Failure whole errs \<Rightarrow>
          (case errs of
             Absent \<Rightarrow> format_errors e whole [Some whole]
           | Errors entries \<Rightarrow> format_errors e whole entries
           | NotIterable \<Rightarrow> ([], Some (TypeError ''_error.errors is not iterable''))))"

text \<open>
  The handler passed to \<open>catch\<close>: \<open>try { ... } catch {}\<close> drops whatever the block threw,
  then \<open>throw _error\<close>.
\<close>

definition catch_handler :: "env \<Rightarrow> failure \<Rightarrow> effect list \<times> exn option" where
  "catch_handler e thrown = (fst (try_block e thrown), Some (BundlerFailure thrown))"

text \<open>
  What the collaborators settle to during one build: \<open>scanHandlers\<close> (the list it stores
  in \<open>nitro.scannedHandlers\<close>), \<open>snapshotStorage\<close> and \<open>rollup.rollup\<close>.
\<close>

record build_oracle =
  scan_result :: "exn + handler_descriptor list"
  snapshot_result :: "exn + (string \<times> json) list"
  rollup_result :: "failure option"

definition scanned :: "handler_descriptor list \<Rightarrow> state \<Rightarrow> state" where
  "scanned hs s = s\<lparr>nitro := (nitro s)\<lparr>scannedHandlers := hs\<rparr>\<rparr>"

definition buildInfo :: "env \<Rightarrow> nitro \<Rightarrow> json" where
  "buildInfo e n =
     JObj [(''date'', JStr (now e)),
           (''preset'', JStr (preset (options n))),
           (''commands'',
              JObj ((case commands_preview (options n) of None \<Rightarrow> [] | Some c \<Rightarrow> [(''preview'', JStr c)])
                    @ (case commands_deploy (options n) of None \<Rightarrow> [] | Some c \<Rightarrow> [(''deploy'', JStr c)])))]"

definition hints :: "env \<Rightarrow> nitro \<Rightarrow> effect list" where
  "hints e n =
     (let rOutput = relative e (cwd e) (output_dir (options n)) in
      (if truthy (commands_preview (options n))
       then [LogSuccess (''You can preview this build using `''
                         @ rewrite_dot_slash e rOutput (the (commands_preview (options n))) @ ''`'')]
       else [])
      @ (if truthy (commands_deploy (options n))
         then [LogSuccess (''You can deploy this build using `''
                           @ rewrite_dot_slash e rOutput (the (commands_deploy (options n))) @ ''`'')]
         else []))"

definition write_bundle :: "env \<Rightarrow> rollup_config \<Rightarrow> state \<Rightarrow> state" where
  "write_bundle e rollupConfig s =
     (let n = nitro s in
      emit ([LogStart ''Writing server bundle...'',
             BundleWrite (cfg_output rollupConfig),
             UtilsWriteFile (resolve e [output_dir (options n), ''nitro.json''])
               (stringify_pretty e (buildInfo e n)),
             LogSuccess ''Server built'']
            @ (if logLevel (options n) > 1 then [PrintFSTree (output_serverDir (options n))] else [])
            @ [CallHook ''compiled'']
            @ hints e n) s)"

definition priv_build :: "env \<Rightarrow> build_oracle \<Rightarrow> state \<Rightarrow> rollup_config \<Rightarrow> state \<times> exn option" where
  "priv_build e orc s rollupConfig =
     (let s1 = emit [ScanHandlers] s in
      case scan_result orc of
        Inl x \<Rightarrow> (s1, Some x)
      | Inr hs \<Rightarrow>
          (case writeTypes e (scanned hs s1) of
             (s2, Some x) \<Rightarrow> (s2, Some x)
           | (s2, None) \<Rightarrow>
               (case priv_snapshot e (snapshot_result orc) s2 of
                  (s3, Some x) \<Rightarrow> (s3, Some x)
                | (s3, None) \<Rightarrow>
                    (let s4 = emit [LogStart ''Building server...'', Rollup rollupConfig] s3 in
                     case rollup_result orc of
                       Some thrown \<Rightarrow>
                         (emit (fst (catch_handler e thrown)) s4, snd (catch_handler e thrown))
                     | None \<Rightarrow> (write_bundle e rollupConfig s4, None)))))"

section \<open>Watch mode\<close>

text \<open>
  The closure of \<open>_watch\<close>: the configuration it was called with, the variable
  \<open>rollupWatcher\<close> (\<open>None\<close> while unassigned) and \<open>reloadWacher\<close>. The bundler-watch
  handles are numbered as \<open>rollup.watch\<close> returns them; \<open>open_handles\<close> are those not yet
  closed. \<open>awaiting\<close> is the \<open>await\<close> at which the running execution of the reload
  function is suspended, and \<open>pending\<close> tells that the debounced function has been called
  and not yet started. Exceptions that reach no handler are collected in \<open>uncaught\<close>.
  The events of the bundler-watch session itself are not part of the model.
\<close>

datatype await_point = Idle | AwaitClose | AwaitScan | AwaitWriteTypes

record watch_state =
  st :: state
  rollupConfig :: rollup_config
  rollupWatcher :: "nat option"
  open_handles :: "nat list"
  next_handle :: nat
  reloadWacher_open :: bool
  awaiting :: await_point
  pending :: bool
  uncaught :: "exn list"

definition effect_in :: "effect list \<Rightarrow> watch_state \<Rightarrow> watch_state" where
  "effect_in es ws = ws\<lparr>st := emit es (st ws)\<rparr>"

definition watchPatterns :: "env \<Rightarrow> nitro \<Rightarrow> string list" where
  "watchPatterns e n =
     concat (map (\<lambda>d. [join e [d, ''api''], join e [d, ''routes''],
                       join e [d, ''middleware'', GLOB_SCAN_PATTERN e]])
                 (scanDirs (options n)))"

definition watchReloadEvents :: "string list" where
  "watchReloadEvents = [''add'', ''addDir'', ''unlink'', ''unlinkDir'']"

text \<open>
  Modelled from the spec: \<open>debounce\<close> comes from the package \<open>perfect-debounce\<close>, which is
  not part of the sources. It is the coalescing state machine of the design: a call of
  the debounced \<open>reload\<close> marks an execution as pending, and the wrapped function starts
  (input \<open>DebounceFires\<close> below) only when one is pending and none is in flight.
\<close>

definition reload :: "watch_state \<Rightarrow> watch_state" where
  "reload ws = (effect_in [DebouncedReload] ws)\<lparr>pending := True\<rparr>"

text \<open>The listener of the outer watcher's \<open>all\<close> event.\<close>

definition on_all :: "string \<Rightarrow> watch_state \<Rightarrow> watch_state" where
  "on_all event ws = (if event \<in> set watchReloadEvents then reload ws else ws)"

text \<open>\<open>watcher.close()\<close> of a bundler-watch handle: closing a closed handle changes nothing.\<close>

definition close_handle :: "nat \<Rightarrow> watch_state \<Rightarrow> watch_state" where
  "close_handle h ws = (effect_in [WatcherClose h] ws)\<lparr>open_handles := removeAll h (open_handles ws)\<rparr>"

text \<open>The listener of the \<open>close\<close> hook. \<open>rollupWatcher.close()\<close> has no guard.\<close>

definition close_hook :: "watch_state \<Rightarrow> watch_state \<times> exn option" where
  "close_hook ws =
     (case rollupWatcher ws of
        None \<Rightarrow> (ws, Some (TypeError ''Cannot read properties of undefined (reading 'close')''))
      | Some h \<Rightarrow> ((effect_in [ChokidarClose] (close_handle h ws))\<lparr>reloadWacher_open := False\<rparr>, None))"

text \<open>\<open>startRollupWatcher\<close>: the configuration is the one the closure holds.\<close>

definition startRollupWatcher :: "watch_state \<Rightarrow> watch_state" where
  "startRollupWatcher ws =
     (effect_in [RollupWatch (rollupConfig ws) (watchOptions (options (nitro (st ws)))) (next_handle ws)] ws)
       \<lparr>rollupWatcher := Some (next_handle ws),
        open_handles := open_handles ws @ [next_handle ws],
        next_handle := Suc (next_handle ws)\<rparr>"

definition fail_reload :: "exn \<Rightarrow> watch_state \<Rightarrow> watch_state" where
  "fail_reload x ws = ws\<lparr>awaiting := Idle, uncaught := uncaught ws @ [x]\<rparr>"

definition call_scanHandlers :: "watch_state \<Rightarrow> watch_state" where
  "call_scanHandlers ws = (effect_in [ScanHandlers] ws)\<lparr>awaiting := AwaitScan\<rparr>"

text \<open>
  The reload function, one stretch between two \<open>await\<close>s at a time.
  \<open>begin_reload\<close> runs up to the first \<open>await\<close>: with a handle in \<open>rollupWatcher\<close> that
  is its \<open>close()\<close>, without one the call of \<open>scanHandlers\<close>.
\<close>

definition begin_reload :: "watch_state \<Rightarrow> watch_state" where
  "begin_reload ws =
     (case rollupWatcher ws of
        Some h \<Rightarrow> (close_handle h ws)\<lparr>awaiting := AwaitClose\<rparr>
      | None \<Rightarrow> call_scanHandlers ws)"

definition after_scan :: "env \<Rightarrow> handler_descriptor list \<Rightarrow> watch_state \<Rightarrow> watch_state" where
  "after_scan e hs ws =
     (let started = startRollupWatcher (ws\<lparr>st := scanned hs (st ws)\<rparr>) in
      case writeTypes e (st started) of
        (s', Some x) \<Rightarrow> fail_reload x (started\<lparr>st := s'\<rparr>)
      | (s', None) \<Rightarrow> started\<lparr>st := s', awaiting := AwaitWriteTypes\<rparr>)"

datatype watch_input =
    FsEvent string
  | DebounceFires
  | CloseSettled "exn option"
  | ScanSettled "exn + handler_descriptor list"
  | WriteTypesSettled
  | CloseHook

text \<open>An input that does not fit the state (a settlement nobody awaits) changes nothing.\<close>

fun step :: "env \<Rightarrow> watch_state \<Rightarrow> watch_input \<Rightarrow> watch_state" where
  "step e ws (FsEvent event) = on_all event ws"
| "step e ws DebounceFires =
     (if pending ws \<and> awaiting ws = Idle then begin_reload (ws\<lparr>pending := False\<rparr>) else ws)"
| "step e ws (CloseSettled r) =
     (if awaiting ws = AwaitClose
      then (case r of Some x \<Rightarrow> fail_reload x ws | None \<Rightarrow> call_scanHandlers ws)
      else ws)"
| "step e ws (ScanSettled r) =
     (if awaiting ws = AwaitScan
      then (case r of Inl x \<Rightarrow> fail_reload x ws | Inr hs \<Rightarrow> after_scan e hs ws)
      else ws)"
| "step e ws WriteTypesSettled =
     (if awaiting ws = AwaitWriteTypes then ws\<lparr>awaiting := Idle\<rparr> else ws)"
| "step e ws CloseHook =
     (case close_hook ws of
        (ws', Some x) \<Rightarrow> ws'\<lparr>uncaught := uncaught ws' @ [x]\<rparr>
      | (ws', None) \<Rightarrow> ws')"

definition run :: "env \<Rightarrow> watch_state \<Rightarrow> watch_input list \<Rightarrow> watch_state" where
  "run e ws inputs = foldl (step e) ws inputs"

text \<open>
  \<open>_watch\<close> up to its own \<open>await\<close>: the outer watcher is created, the \<open>close\<close> listener
  registered and \<open>reload()\<close> called once.
\<close>

definition priv_watch :: "env \<Rightarrow> state \<Rightarrow> rollup_config \<Rightarrow> watch_state" where
  "priv_watch e s rollupConfig' =
     reload
       \<lparr>st = emit [ChokidarWatch (watchPatterns e (nitro s))] s,
        rollupConfig = rollupConfig',
        rollupWatcher = None,
        open_handles = [],
        next_handle = 0,
        reloadWacher_open = True,
        awaiting = Idle,
        pending = False,
        uncaught = []\<rparr>"

datatype build_result = Built "state \<times> exn option" | Watching watch_state

definition build :: "env \<Rightarrow> build_oracle \<Rightarrow> state \<Rightarrow> build_result" where
  "build e orc s =
     (let rollupConfig' = getRollupConfig e (nitro s);
          s1 = emit [CallHook ''rollup:before''] s
      in if dev (options (nitro s1))
         then Watching (priv_watch e s1 rollupConfig')
         else Built (priv_build e orc s1 rollupConfig'))"

section \<open>Notions used to state the properties\<close>

text \<open>The effects a run of \<open>f\<close> adds to those already recorded in \<open>s\<close>.\<close>

definition emitted :: "(state \<Rightarrow> state \<times> exn option) \<Rightarrow> state \<Rightarrow> effect list" where
  "emitted f s = drop (length (effects s)) (effects (fst (f s)))"

text \<open>
  Discovery order: the contributing descriptors in the order of the handler list, the
  routes in the order of their first contributing descriptor, and for each route the type
  expressions of its descriptors in list order.
\<close>

definition first_occurrences :: "'a list \<Rightarrow> 'a list" where
  "first_occurrences xs = rev (remdups (rev xs))"

definition contributing :: "handler_descriptor list \<Rightarrow> handler_descriptor list" where
  "contributing mws = filter contributes mws"

definition grouped :: "env \<Rightarrow> nitro \<Rightarrow> handler_descriptor list \<Rightarrow> string list js_object" where
  "grouped e n mws =
     map (\<lambda>r. (r, map (\<lambda>mw. type_expression (relativePath_of e n mw))
                     (filter (\<lambda>mw. route mw = Some r) (contributing mws))))
         (first_occurrences (map (\<lambda>mw. the (route mw)) (contributing mws)))"

definition discovery_order_manifest :: "env \<Rightarrow> nitro \<Rightarrow> string" where
  "discovery_order_manifest e n = js_join [CHR 0x0A] (manifest_lines n (grouped e n (middleware n)))"





text \<open>The part of \<open>_build\<close> before the bundler is invoked.\<close>

definition before_bundling :: "env \<Rightarrow> build_oracle \<Rightarrow> state \<Rightarrow> state \<times> exn option" where
  "before_bundling e orc s =
     (case scan_result orc of
        Inl x \<Rightarrow> (emit [ScanHandlers] s, Some x)
      | Inr hs \<Rightarrow>
          (case writeTypes e (scanned hs (emit [ScanHandlers] s)) of
             (s2, Some x) \<Rightarrow> (s2, Some x)
           | (s2, None) \<Rightarrow> priv_snapshot e (snapshot_result orc) s2))"

text \<open>
  The inputs of one execution of the reload function that nothing interrupts: the
  debouncer starts it, \<open>close()\<close> of the previous handle settles (\<open>closed\<close> is its rejection,
  if any) when there is such a handle, \<open>scanHandlers\<close> settles to \<open>scan\<close>, and the manifest is
  written. A settlement that the execution no longer awaits, because it has stopped at a
  failure, changes nothing.
\<close>

definition reload_execution ::
  "watch_state \<Rightarrow> exn option \<Rightarrow> exn + handler_descriptor list \<Rightarrow> watch_input list" where
  "reload_execution ws closed scan =
     DebounceFires
     # (case rollupWatcher ws of Some h \<Rightarrow> [CloseSettled closed] | None \<Rightarrow> [])
     @ [ScanSettled scan, WriteTypesSettled]"

text \<open>
  What rewriting the type manifest writes for the build context \<open>n\<close>: nothing when a
  contributing route is named like an inherited property (the writer throws); otherwise
  the manifest, whose route lines are the grouping in discovery order as \<open>Object.entries\<close>
  lists it, and after it the project type configuration when that is enabled.
\<close>

definition manifest_writes :: "env \<Rightarrow> nitro \<Rightarrow> effect list" where
  "manifest_writes e n =
     (if \<exists>mw \<in> set (middleware n). contributes mw \<and> the (route mw) \<in> set inherited_names then []
      else UtilsWriteFile (join e [buildDir (options n), ''types/nitro.d.ts''])
             (js_join [CHR 0x0A] (manifest_lines n (Object_entries (grouped e n (middleware n)))))
           # (if generateTsConfig (options n)
              then [UtilsWriteFile (join e [buildDir (options n), ''types/tsconfig.json''])
                      (stringify_pretty e (tsConfig e n))]
              else []))"

text \<open>The watch session that \<open>build\<close> starts in watch mode.\<close>

definition watch_session :: "env \<Rightarrow> state \<Rightarrow> watch_state" where
  "watch_session e s =
     priv_watch e (emit [CallHook ''rollup:before''] s) (getRollupConfig e (nitro s))"

text \<open>
  Every handle that is still open is the one in \<open>rollupWatcher\<close>; while the reload function
  waits for the old handle to close or for the scan, none is open.
\<close>

definition handles_tracked :: "watch_state \<Rightarrow> bool" where
  "handles_tracked ws =
     (set (open_handles ws) \<subseteq> set_option (rollupWatcher ws)
      \<and> distinct (open_handles ws)
      \<and> (awaiting ws = AwaitClose \<or> awaiting ws = AwaitScan \<longrightarrow> open_handles ws = []))"

text \<open>The configurations handed to \<open>rollup.watch\<close>, in order.\<close>

fun watch_configs :: "effect list \<Rightarrow> rollup_config list" where
  "watch_configs [] = []"
| "watch_configs (RollupWatch c w h # es) = c # watch_configs es"
| "watch_configs (x # es) = watch_configs es"

text \<open>
  The arguments of the calls of \<open>rollup.watch\<close>, in order: the configuration and the watch
  options merged into it.
\<close>

fun watch_calls :: "effect list \<Rightarrow> (rollup_config \<times> json) list" where
  "watch_calls [] = []"
| "watch_calls (RollupWatch c w h # es) = (c, w) # watch_calls es"
| "watch_calls (x # es) = watch_calls es"

text \<open>
  The closure still holds \<open>cfg\<close>, the options of the build context are still \<open>opts\<close>, and
  the calls of \<open>rollup.watch\<close> are those made before the session followed by one call per
  handle handed out, each with \<open>cfg\<close> and the watch options of \<open>opts\<close>.
\<close>

definition config_kept ::
  "rollup_config \<Rightarrow> nitro_options \<Rightarrow> (rollup_config \<times> json) list \<Rightarrow> watch_state \<Rightarrow> bool" where
  "config_kept cfg opts before ws =
     (rollupConfig ws = cfg \<and> options (nitro (st ws)) = opts
      \<and> watch_calls (effects (st ws)) = before @ replicate (next_handle ws) (cfg, watchOptions opts))"

section \<open>A concrete environment\<close>

text \<open>
  An instance of the collaborators for evaluating the definitions on concrete inputs.
  The path functions follow \<open>pathe\<close> on POSIX paths (no backslash, no drive letter):
  \<open>normalize\<close> drops empty and \<open>.\<close> segments and resolves \<open>..\<close>, \<open>join\<close> normalises the
  non-empty parts joined by a slash, \<open>resolve\<close> takes the parts from the right up to the
  first absolute one, or else up to the working directory, \<open>relative\<close> resolves both
  paths, drops their common leading segments and climbs out of the rest, and \<open>dirname\<close>
  cuts the last segment. \<open>isAbsolute(undefined)\<close> returns \<open>false\<close>. The rewriting of
  \<open>./\<close> in a command is the replacement of the source for the ASCII white space and for
  an output directory without a dollar sign. The serialiser writes compact JSON without
  escapes.
\<close>

fun split_on :: "char \<Rightarrow> string \<Rightarrow> string list" where
  "split_on c [] = [[]]"
| "split_on c (x # xs) =
     (if x = c then [] # split_on c xs
      else (case split_on c xs of [] \<Rightarrow> [[x]] | w # ws \<Rightarrow> (x # w) # ws))"

fun strip_common :: "string list \<Rightarrow> string list \<Rightarrow> string list \<times> string list" where
  "strip_common (a # as) (b # bs) = (if a = b then strip_common as bs else (a # as, b # bs))"
| "strip_common as bs = (as, bs)"

definition starts_with_slash :: "string \<Rightarrow> bool" where
  "starts_with_slash p = (case p of [] \<Rightarrow> False | c # _ \<Rightarrow> c = CHR ''/'')"

fun normalize_segments :: "bool \<Rightarrow> string list \<Rightarrow> string list \<Rightarrow> string list" where
  "normalize_segments climb kept [] = rev kept"
| "normalize_segments climb kept (seg # segs) =
     (if seg = [] \<or> seg = ''.'' then normalize_segments climb kept segs
      else if seg = ''..''
      then (case kept of
              [] \<Rightarrow> normalize_segments climb (if climb then [''..''] else []) segs
            | k # ks \<Rightarrow>
                if k = ''..'' then normalize_segments climb (if climb then ''..'' # kept else kept) segs
                else normalize_segments climb ks segs)
      else normalize_segments climb (seg # kept) segs)"

definition sample_normalize :: "string \<Rightarrow> string" where
  "sample_normalize p =
     (if p = [] then ''.''
      else let absolute = starts_with_slash p;
               trailing = (last p = CHR ''/'');
               body = js_join ''/'' (normalize_segments (\<not> absolute) [] (split_on CHR ''/'' p))
           in if body = [] then (if absolute then ''/'' else if trailing then ''./'' else ''.'')
              else (if absolute then ''/'' else []) @ body @ (if trailing then ''/'' else []))"

definition sample_join :: "string list \<Rightarrow> string" where
  "sample_join parts =
     (case filter (\<lambda>a. a \<noteq> []) parts of
        [] \<Rightarrow> ''.''
      | kept \<Rightarrow> sample_normalize (js_join ''/'' kept))"

fun gather :: "string list \<Rightarrow> string \<Rightarrow> string" where
  "gather [] resolved = resolved"
| "gather (p # ps) resolved =
     (if p = [] then gather ps resolved
      else if starts_with_slash p then p @ ''/'' @ resolved
      else gather ps (p @ ''/'' @ resolved))"

definition sample_resolve :: "string \<Rightarrow> string list \<Rightarrow> string" where
  "sample_resolve base parts =
     (let resolved = gather (rev parts @ [base]) [];
          absolute = starts_with_slash resolved;
          body = js_join ''/'' (normalize_segments (\<not> absolute) [] (split_on CHR ''/'' resolved))
      in if absolute then ''/'' @ body else if body = [] then ''.'' else body)"

definition root_segments :: "string \<Rightarrow> string list" where
  "root_segments p = split_on CHR ''/'' (if p = ''/'' then [] else p)"

definition sample_relative :: "string \<Rightarrow> string \<Rightarrow> string \<Rightarrow> string" where
  "sample_relative base from to =
     (case strip_common (root_segments (sample_resolve base [from])) (root_segments (sample_resolve base [to])) of
        (f, t) \<Rightarrow> js_join ''/'' (map (\<lambda>_. ''..'') f @ t))"

definition sample_dirname :: "string \<Rightarrow> string" where
  "sample_dirname p =
     (let q = (if p \<noteq> [] \<and> last p = CHR ''/'' then butlast p else p);
          d = js_join ''/'' (butlast (split_on CHR ''/'' q))
      in if d = [] then (if starts_with_slash p then ''/'' else ''.'') else d)"

definition is_space :: "char \<Rightarrow> bool" where
  "is_space c = (c = CHR '' '' \<or> (9 \<le> (of_char c :: nat) \<and> (of_char c :: nat) \<le> 13))"

function sample_rewrite :: "string \<Rightarrow> string \<Rightarrow> string" where
  "sample_rewrite rOutput [] = []"
| "sample_rewrite rOutput (c # cs) =
     (if is_space c \<and> take 2 cs = ''./''
      then '' '' @ rOutput @ ''/'' @ takeWhile (\<lambda>x. \<not> is_space x) (drop 2 cs)
           @ sample_rewrite rOutput (dropWhile (\<lambda>x. \<not> is_space x) (drop 2 cs))
      else c # sample_rewrite rOutput cs)"
  by pat_completeness auto
termination
proof (relation "measure (\<lambda>(r, s). length s)")
  show "wf (measure (\<lambda>(r, s). length s))" by simp
next
  fix rOutput :: string and c :: char and cs :: string
  have "length (dropWhile (\<lambda>x. \<not> is_space x) (drop 2 cs)) \<le> length (drop 2 cs)"
    by (rule length_dropWhile_le)
  then show "((rOutput, dropWhile (\<lambda>x. \<not> is_space x) (drop 2 cs)), (rOutput, c # cs)) \<in> measure (\<lambda>(r, s). length s)"
    by simp
next
  fix rOutput :: string and c :: char and cs :: string
  show "((rOutput, cs), (rOutput, c # cs)) \<in> measure (\<lambda>(r, s). length s)" by simp
qed

fun sample_stringify :: "json \<Rightarrow> string" where
  "sample_stringify JNull = ''null''"
| "sample_stringify (JBool b) = (if b then ''true'' else ''false'')"
| "sample_stringify (JNum i) = (if i < 0 then ''-'' else []) @ decimal (nat (abs i))"
| "sample_stringify (JStr str) = [CHR 0x22] @ str @ [CHR 0x22]"
| "sample_stringify (JArr vs) = ''['' @ js_join '','' (map sample_stringify vs) @ '']''"
| "sample_stringify (JObj kvs) =
     ''{'' @ js_join '','' (map (\<lambda>kv. [CHR 0x22] @ fst kv @ [CHR 0x22] @ '':'' @ sample_stringify (snd kv)) kvs) @ ''}''"

definition sample_getRollupConfig :: "nitro \<Rightarrow> rollup_config" where
  "sample_getRollupConfig n =
     RollupConfig (JStr (output_serverDir (options n)))
                  (JArr (map (\<lambda>mw. JStr (to_string (route mw))) (middleware n)))"

definition sample_env :: env where
  "sample_env =
     \<lparr>relative = sample_relative ''/app'',
      join = sample_join,
      resolve = sample_resolve ''/app'',
      dirname = sample_dirname,
      isAbsolute = starts_with_slash,
      isAbsolute_undefined = None,
      cwd = ''/app'',
      stringify = sample_stringify,
      stringify_pretty = sample_stringify,
      runtimeDir = ''/app/node_modules/nitropack/dist/runtime'',
      GLOB_SCAN_PATTERN = ''**/*.{ts,mjs,js,cjs}'',
      getRollupConfig = sample_getRollupConfig,
      rewrite_dot_slash = sample_rewrite,
      now = ''2022-04-01T00:00:00.000Z''\<rparr>"

definition sample_options :: nitro_options where
  "sample_options =
     \<lparr>buildDir = ''/app/.nitro'',
      rootDir = ''/app'',
      srcDir = ''/app'',
      handlers = [],
      bundledStorage = [],
      preset = ''node-server'',
      serverAssets = [],
      output_dir = ''/app/.output'',
      output_serverDir = ''/app/.output/server'',
      dev = False,
      logLevel = 1,
      commands_preview = Some ''node ./server/index.mjs'',
      commands_deploy = None,
      generateTsConfig = False,
      internalPaths = False,
      scanDirs = [''/app''],
      watchOptions = JObj []\<rparr>"

definition sample_state :: "nitro_options \<Rightarrow> handler_descriptor list \<Rightarrow> state" where
  "sample_state opts scanned_before =
     \<lparr>nitro = \<lparr>options = opts, scannedHandlers = scanned_before, unimport = None\<rparr>, effects = []\<rparr>"

text \<open>Handler lists: two routes, two numeric routes, a route named like an inherited property.\<close>

definition handlers_a_b :: "handler_descriptor list" where
  "handlers_a_b =
     [\<lparr>route = Some ''/a'', handler = ModulePath ''/app/routes/a.ts''\<rparr>,
      \<lparr>route = Some ''/b'', handler = ModulePath ''/app/routes/b.ts''\<rparr>]"

definition handlers_2_1 :: "handler_descriptor list" where
  "handlers_2_1 =
     [\<lparr>route = Some ''2'', handler = ModulePath ''/app/routes/two.ts''\<rparr>,
      \<lparr>route = Some ''1'', handler = ModulePath ''/app/routes/one.ts''\<rparr>]"

definition handlers_constructor :: "handler_descriptor list" where
  "handlers_constructor =
     [\<lparr>route = Some ''constructor'', handler = ModulePath ''/app/routes/constructor.ts''\<rparr>]"

text \<open>A storage snapshot with a string and a structured value, and options that bundle storage.\<close>

definition snapshot_entries :: "(string \<times> json) list" where
  "snapshot_entries = [(''a:b'', JStr ''hello''), (''c:d'', JObj [(''x'', JNum 1)])]"

definition bundling_options :: nitro_options where
  "bundling_options = sample_options\<lparr>bundledStorage := [''data'']\<rparr>"


definition null_entry_failure :: failure where
  "null_entry_failure =
     Failure \<lparr>d_id = Some ''/app/routes/a.ts'', d_loc = None, d_location = None,
              d_text = None, d_frame = None\<rparr>
       (Errors
         [Some \<lparr>d_id = None, d_loc = None, d_location = Some \<lparr>line = 3, column = 14\<rparr>,
                d_text = Some ''Unexpected token'', d_frame = None\<rparr>,
          None])"

definition failing_build :: "failure \<Rightarrow> build_oracle" where
  "failing_build thrown =
     \<lparr>scan_result = Inr handlers_a_b, snapshot_result = Inr [], rollup_result = Some thrown\<rparr>"

definition dev_options :: nitro_options where
  "dev_options = sample_options\<lparr>dev := True, watchOptions := JObj [(''ignoreInitial'', JBool True)]\<rparr>"

text \<open>Watch mode does not consult the collaborators of the one-shot build.\<close>

definition quiet_oracle :: build_oracle where
  "quiet_oracle = \<lparr>scan_result = Inr [], snapshot_result = Inr [], rollup_result = None\<rparr>"


text \<open>
  The watch session started by \<open>build\<close>, after its first reload has found two handlers
  and a file has been removed.
\<close>

definition reloaded_once :: watch_state where
  "reloaded_once =
     run sample_env (watch_session sample_env (sample_state dev_options []))
       [DebounceFires, ScanSettled (Inr handlers_a_b), WriteTypesSettled, FsEvent ''unlink'']"

section \<open>Properties of the type manifest\<close>

subsection \<open>The loop computes the grouping in discovery order\<close>

lemma first_occurrences_snoc:
  "first_occurrences (xs @ [x]) = (if x \<in> set xs then first_occurrences xs else first_occurrences xs @ [x])"
  by (simp add: first_occurrences_def)

lemma set_first_occurrences [simp]: "set (first_occurrences xs) = set xs"
  by (simp add: first_occurrences_def)

lemma distinct_first_occurrences [simp]: "distinct (first_occurrences xs)"
  by (simp add: first_occurrences_def)

lemma contributes_route: "contributes mw \<Longrightarrow> route mw = Some (the (route mw))"
  by (auto simp: contributes_def truthy_def split: handler_ref.splits option.splits)

lemma keys_grouped: "map fst (grouped e n mws) = first_occurrences (map (\<lambda>mw. the (route mw)) (contributing mws))"
  by (simp add: grouped_def comp_def)

lemma grouped_skip: "\<not> contributes mw \<Longrightarrow> grouped e n (mws @ [mw]) = grouped e n mws"
  by (simp add: grouped_def contributing_def)

lemma push_route_grouped:
  assumes c: "contributes mw" and ni: "the (route mw) \<notin> set inherited_names"
  shows "push_route (the (route mw)) (type_expression (relativePath_of e n mw)) (grouped e n mws)
         = Inr (grouped e n (mws @ [mw]))"
proof (cases "the (route mw) \<in> set (map fst (grouped e n mws))")
  case True
  then have m: "the (route mw) \<in> (\<lambda>mw. the (route mw)) ` set (contributing mws)"
    by (simp add: keys_grouped)
  show ?thesis
    using True m contributes_route [OF c] c
    by (auto simp: push_route_def grouped_def contributing_def first_occurrences_snoc)
next
  case False
  then have m: "the (route mw) \<notin> (\<lambda>mw. the (route mw)) ` set (contributing mws)"
    by (simp add: keys_grouped)
  have other: "\<And>r. r \<in> set (first_occurrences (map (\<lambda>mw. the (route mw)) (contributing mws))) \<Longrightarrow> route mw \<noteq> Some r"
    using m by (auto simp: image_iff)
  have none: "filter (\<lambda>x. route x = Some (the (route mw))) (contributing mws) = []"
    using m by (auto simp: filter_empty_conv image_iff)
  have k: "push_route (the (route mw)) (type_expression (relativePath_of e n mw)) (grouped e n mws)
        = Inr (grouped e n mws @ [(the (route mw), [type_expression (relativePath_of e n mw)])])"
    using False ni by (simp add: push_route_def)
  have g: "grouped e n (mws @ [mw]) = grouped e n mws @ [(the (route mw), [type_expression (relativePath_of e n mw)])]"
    using m other none contributes_route [OF c] c
    by (simp add: grouped_def contributing_def first_occurrences_snoc)
  show ?thesis by (simp only: k g)
qed


lemma grouped_Nil [simp]: "grouped e n [] = []"
  by (simp add: grouped_def contributing_def first_occurrences_def)

lemma collect_routeTypes_grouped:
  "\<forall>mw \<in> set mws. contributes mw \<longrightarrow> the (route mw) \<notin> set inherited_names \<Longrightarrow>
   collect_routeTypes e n mws (grouped e n seen) = Inr (grouped e n (seen @ mws))"
proof (induction mws arbitrary: seen)
  case Nil
  then show ?case by simp
next
  case (Cons mw mws)
  show ?case
  proof (cases "contributes mw")
    case False
    then show ?thesis
      using Cons.IH [of "seen @ [mw]"] Cons.prems by (simp add: grouped_skip)
  next
    case True
    then have "the (route mw) \<notin> set inherited_names" using Cons.prems by simp
    then show ?thesis
      using True Cons.IH [of "seen @ [mw]"] Cons.prems
      by (simp add: push_route_grouped)
  qed
qed

lemma push_route_keys:
  assumes "r \<notin> set inherited_names"
  shows "\<exists>obj'. push_route r t obj = Inr obj' \<and> set (map fst obj') = insert r (set (map fst obj))"
proof (cases "r \<in> set (map fst obj)")
  case True
  have "map fst (map (\<lambda>kv. if fst kv = r then (fst kv, snd kv @ [t]) else kv) obj) = map fst obj"
    by (induction obj) auto
  then have "set (map fst (map (\<lambda>kv. if fst kv = r then (fst kv, snd kv @ [t]) else kv) obj)) = set (map fst obj)"
    by (simp only:)
  moreover have "insert r (set (map fst obj)) = set (map fst obj)" using True by auto
  ultimately show ?thesis using True by (simp only: push_route_def if_True sum.inject) blast
next
  case False
  then show ?thesis using assms by (simp add: push_route_def)
qed

lemma collect_routeTypes_fails:
  "\<exists>mw \<in> set mws. contributes mw \<and> the (route mw) \<in> set inherited_names \<Longrightarrow>
   set (map fst obj) \<inter> set inherited_names = {} \<Longrightarrow>
   collect_routeTypes e n mws obj = Inl (TypeError ''routeTypes[mw.route].push is not a function'')"
proof (induction mws arbitrary: obj)
  case Nil
  then show ?case by simp
next
  case (Cons mw mws)
  show ?case
  proof (cases "contributes mw \<and> the (route mw) \<in> set inherited_names")
    case True
    then have "the (route mw) \<notin> set (map fst obj)" using Cons.prems(2) by auto
    then show ?thesis using True by (simp add: push_route_def)
  next
    case False
    then have ex: "\<exists>mw \<in> set mws. contributes mw \<and> the (route mw) \<in> set inherited_names"
      using Cons.prems(1) by auto
    show ?thesis
    proof (cases "contributes mw")
      case False
      then show ?thesis using Cons.IH [OF ex Cons.prems(2)] by simp
    next
      case True
      then have ni: "the (route mw) \<notin> set inherited_names" using False by simp
      obtain obj' where p: "push_route (the (route mw)) (type_expression (relativePath_of e n mw)) obj = Inr obj'"
        and k: "set (map fst obj') = insert (the (route mw)) (set (map fst obj))"
        using push_route_keys [OF ni] by blast
      have "set (map fst obj') \<inter> set inherited_names = {}"
        using k ni Cons.prems(2) by auto
      then show ?thesis using True p Cons.IH [OF ex] by simp
    qed
  qed
qed

lemma Object_entries_no_index:
  "\<forall>k \<in> set (map fst obj). \<not> is_array_index k \<Longrightarrow> Object_entries obj = obj"
  by (simp add: Object_entries_def filter_empty_conv[THEN iffD2] filter_id_conv[THEN iffD2])


lemma emitted_emit [simp]: "drop (length (effects s)) (effects (emit es s)) = es"
  by (simp add: emit_def)

lemma writeTypes_unfold:
  "writeTypes e s =
     (case collect_routeTypes e (nitro s) (middleware (nitro s)) [] of
        Inl x \<Rightarrow> (s, Some x)
      | Inr routeTypes \<Rightarrow>
          (emit
            ([UtilsWriteFile (join e [buildDir (options (nitro s)), ''types/nitro.d.ts''])
                (js_join [CHR 0x0A] (manifest_lines (nitro s) (Object_entries routeTypes)))]
             @ (if generateTsConfig (options (nitro s))
                then [UtilsWriteFile (join e [buildDir (options (nitro s)), ''types/tsconfig.json''])
                        (stringify_pretty e (tsConfig e (nitro s)))]
                else []))
            s,
           None))"
  by (simp add: writeTypes_def Let_def)

lemma writeTypes_nitro [simp]: "nitro (fst (writeTypes e s)) = nitro s"
  by (simp add: writeTypes_unfold emit_def split: sum.splits)

lemma writeTypes_same_nitro:
  "nitro s' = nitro s \<Longrightarrow>
   emitted (writeTypes e) s' = emitted (writeTypes e) s \<and> snd (writeTypes e s') = snd (writeTypes e s)"
  by (simp add: emitted_def writeTypes_unfold split: sum.splits)

lemma writeTypes_discovery_order:
  assumes "\<forall>mw \<in> set (middleware (nitro s)). contributes mw \<longrightarrow>
             \<not> is_array_index (the (route mw)) \<and> the (route mw) \<notin> set inherited_names"
  shows "snd (writeTypes e s) = None"
    and "take 1 (emitted (writeTypes e) s) =
           [UtilsWriteFile (join e [buildDir (options (nitro s)), ''types/nitro.d.ts''])
              (discovery_order_manifest e (nitro s))]"
proof -
  have c: "collect_routeTypes e (nitro s) (middleware (nitro s)) [] = Inr (grouped e (nitro s) (middleware (nitro s)))"
    using collect_routeTypes_grouped [of "middleware (nitro s)" e "nitro s" "[]"] assms by simp
  have "\<forall>k \<in> set (map fst (grouped e (nitro s) (middleware (nitro s)))). \<not> is_array_index k"
    using assms by (auto simp: keys_grouped contributing_def)
  then have o: "Object_entries (grouped e (nitro s) (middleware (nitro s))) = grouped e (nitro s) (middleware (nitro s))"
    by (rule Object_entries_no_index)
  show "snd (writeTypes e s) = None" by (simp add: writeTypes_unfold c)
  show "take 1 (emitted (writeTypes e) s) =
           [UtilsWriteFile (join e [buildDir (options (nitro s)), ''types/nitro.d.ts''])
              (discovery_order_manifest e (nitro s))]"
    by (simp add: writeTypes_unfold c o emitted_def discovery_order_manifest_def)
qed


text \<open>
  Claim C3, as amended. Two successive runs of \<open>writeTypes\<close> on an unchanged handler list
  and build context emit the same effects, so the same manifest text, and end the same
  way. When no contributing route is an array index or the name of a property that plain
  objects inherit, the run succeeds and the manifest written to \<open>types/nitro.d.ts\<close> lists
  the routes in discovery order: each route at the place of its first contributing
  handler.
\<close>

theorem writeTypes_repeatable:
  "emitted (writeTypes e) (fst (writeTypes e s)) = emitted (writeTypes e) s
   \<and> snd (writeTypes e (fst (writeTypes e s))) = snd (writeTypes e s)
   \<and> ((\<forall>mw \<in> set (middleware (nitro s)). contributes mw \<longrightarrow>
          \<not> is_array_index (the (route mw)) \<and> the (route mw) \<notin> set inherited_names)
        \<longrightarrow> snd (writeTypes e s) = None
            \<and> take 1 (emitted (writeTypes e) s) =
                [UtilsWriteFile (join e [buildDir (options (nitro s)), ''types/nitro.d.ts''])
                   (discovery_order_manifest e (nitro s))])"
  using writeTypes_same_nitro [of "fst (writeTypes e s)" s e] writeTypes_discovery_order [of s e]
  by simp


theorem writeTypes_repeatable_witness:
  "snd (writeTypes sample_env (sample_state sample_options handlers_a_b)) = None
   \<and> take 1 (emitted (writeTypes sample_env) (sample_state sample_options handlers_a_b)) =
        [UtilsWriteFile
           (join sample_env [buildDir (options (nitro (sample_state sample_options handlers_a_b))),
                             ''types/nitro.d.ts''])
           (discovery_order_manifest sample_env (nitro (sample_state sample_options handlers_a_b)))]
   \<and> emitted (writeTypes sample_env) (fst (writeTypes sample_env (sample_state sample_options handlers_a_b)))
       = emitted (writeTypes sample_env) (sample_state sample_options handlers_a_b)"
proof -
  have h: "\<forall>mw \<in> set (middleware (nitro (sample_state sample_options handlers_a_b))). contributes mw \<longrightarrow>
             \<not> is_array_index (the (route mw)) \<and> the (route mw) \<notin> set inherited_names"
    by (simp add: middleware_def sample_state_def sample_options_def handlers_a_b_def
          is_array_index_def is_digit_def inherited_names_def)
  show ?thesis
    using h writeTypes_repeatable [of sample_env "sample_state sample_options handlers_a_b"]
    by blast
qed

text \<open>
  Claim C3 as stated fails: with the routes \<open>2\<close> and \<open>1\<close> discovered in this order, the
  manifest lists route \<open>1\<close> first, which is not the discovery order.
\<close>

theorem manifest_order_counterexample:
  "emitted (writeTypes sample_env) (sample_state sample_options handlers_2_1) =
     [UtilsWriteFile ''/app/.nitro/types/nitro.d.ts''
        (js_join [CHR 0x0A] (manifest_lines (nitro (sample_state sample_options handlers_2_1))
           [(''1'', [type_expression ''../../routes/one'']),
            (''2'', [type_expression ''../../routes/two''])]))]
   \<and> emitted (writeTypes sample_env) (sample_state sample_options handlers_2_1) \<noteq>
     [UtilsWriteFile ''/app/.nitro/types/nitro.d.ts''
        (discovery_order_manifest sample_env (nitro (sample_state sample_options handlers_2_1)))]"
  by code_simp

text \<open>
  Claim C9 at a failing input. The descriptor has a module path and the route
  \<open>constructor\<close>, so it should contribute an entry. \<open>routeTypes['constructor']\<close> reads the
  inherited property, \<open>push\<close> is not a function, and \<open>writeTypes\<close> throws before anything
  is written.
\<close>

theorem writeTypes_inherited_route_throws:
  "contributes (hd handlers_constructor)
   \<and> writeTypes sample_env (sample_state sample_options handlers_constructor) =
       (sample_state sample_options handlers_constructor,
        Some (TypeError ''routeTypes[mw.route].push is not a function''))"
  by (simp add: writeTypes_unfold middleware_def sample_state_def sample_options_def
        handlers_constructor_def contributes_def truthy_def push_route_def inherited_names_def)

section \<open>Properties of the storage snapshot\<close>

lemma priv_snapshot_skip:
  "bundledStorage (options (nitro s)) = [] \<or> preset (options (nitro s)) = ''nitro-prerender'' \<Longrightarrow>
   priv_snapshot e data s = (s, None)"
  by (auto simp: priv_snapshot_def Let_def)

lemma priv_snapshot_registers:
  "bundledStorage (options (nitro s)) \<noteq> [] \<Longrightarrow> preset (options (nitro s)) \<noteq> ''nitro-prerender'' \<Longrightarrow>
   serverAssets (options (nitro (fst (priv_snapshot e data s)))) =
     serverAssets (options (nitro s))
     @ [\<lparr>baseName = ''nitro:bundled'', dir = resolve e [buildDir (options (nitro s)), ''snapshot'']\<rparr>]"
  by (auto simp: priv_snapshot_def Let_def emit_def split: sum.splits)

lemma priv_snapshot_emitted:
  "bundledStorage (options (nitro s)) \<noteq> [] \<Longrightarrow> preset (options (nitro s)) \<noteq> ''nitro-prerender'' \<Longrightarrow>
   emitted (priv_snapshot e data) s =
     SnapshotStorage #
     (case data of
        Inl x \<Rightarrow> []
      | Inr entries \<Rightarrow>
          [PromiseAll (map (snapshot_task e (resolve e [buildDir (options (nitro s)), ''snapshot''])) entries)])"
  by (auto simp: priv_snapshot_def Let_def emit_def emitted_def split: sum.splits)

lemma priv_snapshot_outcome:
  "bundledStorage (options (nitro s)) \<noteq> [] \<Longrightarrow> preset (options (nitro s)) \<noteq> ''nitro-prerender'' \<Longrightarrow>
   snd (priv_snapshot e data s) = (case data of Inl x \<Rightarrow> Some x | Inr entries \<Rightarrow> None)"
  by (auto simp: priv_snapshot_def Let_def split: sum.splits)

lemma replace_colons_length: "length (replace_colons k) = length k"
  by (simp add: replace_colons_def)

lemma replace_colons_nth:
  "i < length k \<Longrightarrow> replace_colons k ! i = (if k ! i = CHR '':'' then CHR ''/'' else k ! i)"
  by (simp add: replace_colons_def)

text \<open>
  Claim C6. Without bundled storage mounts, or with the preset \<open>nitro-prerender\<close>, the
  snapshotter returns the state as it got it: no call, no write, no new asset source. In
  every other case the snapshot directory is appended to the embedded-asset sources
  whatever the storage query settles to, the first call is that query, and the writes
  come after it and only if it succeeds.
\<close>

theorem snapshot_skips_or_registers_first:
  "(bundledStorage (options (nitro s)) = [] \<or> preset (options (nitro s)) = ''nitro-prerender''
      \<longrightarrow> priv_snapshot e data s = (s, None))
   \<and> (bundledStorage (options (nitro s)) \<noteq> [] \<and> preset (options (nitro s)) \<noteq> ''nitro-prerender''
      \<longrightarrow> serverAssets (options (nitro (fst (priv_snapshot e data s)))) =
            serverAssets (options (nitro s))
            @ [\<lparr>baseName = ''nitro:bundled'', dir = resolve e [buildDir (options (nitro s)), ''snapshot'']\<rparr>]
          \<and> emitted (priv_snapshot e data) s =
              SnapshotStorage #
              (case data of
                 Inl x \<Rightarrow> []
               | Inr entries \<Rightarrow>
                   [PromiseAll (map (snapshot_task e (resolve e [buildDir (options (nitro s)), ''snapshot'']))
                                    entries)])
          \<and> snd (priv_snapshot e data s) = (case data of Inl x \<Rightarrow> Some x | Inr entries \<Rightarrow> None))"
  using priv_snapshot_skip [of s e data] priv_snapshot_registers [of s e data]
    priv_snapshot_emitted [of s e data] priv_snapshot_outcome [of s e data]
  by blast

theorem snapshot_skips_or_registers_first_witness:
  "priv_snapshot sample_env (Inr snapshot_entries)
       (sample_state (bundling_options\<lparr>preset := ''nitro-prerender''\<rparr>) [])
     = (sample_state (bundling_options\<lparr>preset := ''nitro-prerender''\<rparr>) [], None)
   \<and> serverAssets (options (nitro (fst (priv_snapshot sample_env (Inl (Rejected ''storage''))
                                          (sample_state bundling_options [])))))
       = [\<lparr>baseName = ''nitro:bundled'', dir = ''/app/.nitro/snapshot''\<rparr>]
   \<and> emitted (priv_snapshot sample_env (Inl (Rejected ''storage''))) (sample_state bundling_options [])
       = [SnapshotStorage]"
proof -
  have skip: "preset (options (nitro (sample_state (bundling_options\<lparr>preset := ''nitro-prerender''\<rparr>) [])))
                = ''nitro-prerender''"
    by (simp add: sample_state_def)
  have a: "priv_snapshot sample_env (Inr snapshot_entries)
             (sample_state (bundling_options\<lparr>preset := ''nitro-prerender''\<rparr>) [])
           = (sample_state (bundling_options\<lparr>preset := ''nitro-prerender''\<rparr>) [], None)"
    using skip snapshot_skips_or_registers_first
            [of "sample_state (bundling_options\<lparr>preset := ''nitro-prerender''\<rparr>) []"
                sample_env "Inr snapshot_entries"]
    by blast
  have go: "bundledStorage (options (nitro (sample_state bundling_options []))) \<noteq> []
            \<and> preset (options (nitro (sample_state bundling_options []))) \<noteq> ''nitro-prerender''"
    by (simp add: sample_state_def bundling_options_def sample_options_def)
  have b: "serverAssets (options (nitro (fst (priv_snapshot sample_env (Inl (Rejected ''storage''))
                                                (sample_state bundling_options [])))))
             = serverAssets (options (nitro (sample_state bundling_options [])))
               @ [\<lparr>baseName = ''nitro:bundled'',
                   dir = resolve sample_env [buildDir (options (nitro (sample_state bundling_options []))),
                                             ''snapshot'']\<rparr>]
           \<and> emitted (priv_snapshot sample_env (Inl (Rejected ''storage''))) (sample_state bundling_options [])
             = [SnapshotStorage]"
    using go snapshot_skips_or_registers_first
            [of "sample_state bundling_options []" sample_env "Inl (Rejected ''storage'')"]
    by simp
  have c: "serverAssets (options (nitro (sample_state bundling_options [])))
             @ [\<lparr>baseName = ''nitro:bundled'',
                 dir = resolve sample_env [buildDir (options (nitro (sample_state bundling_options []))),
                                           ''snapshot'']\<rparr>]
           = [\<lparr>baseName = ''nitro:bundled'', dir = ''/app/.nitro/snapshot''\<rparr>]"
    by code_simp
  show ?thesis using a b c by simp
qed

text \<open>
  Claim C7. When the snapshotter runs and the storage query yields the entries, it
  issues one task per entry, in the order of the entries: create recursively the
  directory of the file, then write the file. The file is the snapshot directory joined
  with the key in which every colon has become a slash and every other character is
  kept; its content is the value itself when it is a string and its JSON serialisation
  otherwise.
\<close>

theorem snapshot_writes_each_entry:
  assumes "bundledStorage (options (nitro s)) \<noteq> []"
      and "preset (options (nitro s)) \<noteq> ''nitro-prerender''"
  shows "snd (priv_snapshot e (Inr entries) s) = None
         \<and> emitted (priv_snapshot e (Inr entries)) s =
             [SnapshotStorage,
              PromiseAll
                (map (\<lambda>entry.
                        [FsMkdir (dirname e (join e [resolve e [buildDir (options (nitro s)), ''snapshot''],
                                                     replace_colons (fst entry)])),
                         FsWriteFile (join e [resolve e [buildDir (options (nitro s)), ''snapshot''],
                                              replace_colons (fst entry)])
                                     (case snd entry of JStr str \<Rightarrow> str | v \<Rightarrow> stringify e v)])
                     entries)]
         \<and> length (replace_colons key) = length key
         \<and> (\<forall>i < length key.
               replace_colons key ! i = (if key ! i = CHR '':'' then CHR ''/'' else key ! i))"
  using priv_snapshot_emitted [OF assms, of e "Inr entries"] priv_snapshot_outcome [OF assms, of e "Inr entries"]
  by (simp add: snapshot_task_def Let_def replace_colons_length replace_colons_nth)

theorem snapshot_writes_each_entry_witness:
  "emitted (priv_snapshot sample_env (Inr snapshot_entries)) (sample_state bundling_options []) =
     [SnapshotStorage,
      PromiseAll
       [[FsMkdir ''/app/.nitro/snapshot/a'', FsWriteFile ''/app/.nitro/snapshot/a/b'' ''hello''],
        [FsMkdir ''/app/.nitro/snapshot/c'',
         FsWriteFile ''/app/.nitro/snapshot/c/d'' (''{'' @ [CHR 0x22] @ ''x'' @ [CHR 0x22] @ '':1}'')]]]"
proof -
  have h1: "bundledStorage (options (nitro (sample_state bundling_options []))) \<noteq> []"
    and h2: "preset (options (nitro (sample_state bundling_options []))) \<noteq> ''nitro-prerender''"
    by (simp_all add: sample_state_def bundling_options_def sample_options_def)
  have tasks:
    "map (\<lambda>entry.
            [FsMkdir (dirname sample_env
                        (join sample_env [resolve sample_env
                                            [buildDir (options (nitro (sample_state bundling_options []))),
                                             ''snapshot''],
                                          replace_colons (fst entry)])),
             FsWriteFile (join sample_env [resolve sample_env
                                             [buildDir (options (nitro (sample_state bundling_options []))),
                                              ''snapshot''],
                                           replace_colons (fst entry)])
                         (case snd entry of JStr str \<Rightarrow> str | v \<Rightarrow> stringify sample_env v)])
         snapshot_entries
     = [[FsMkdir ''/app/.nitro/snapshot/a'', FsWriteFile ''/app/.nitro/snapshot/a/b'' ''hello''],
        [FsMkdir ''/app/.nitro/snapshot/c'',
         FsWriteFile ''/app/.nitro/snapshot/c/d'' (''{'' @ [CHR 0x22] @ ''x'' @ [CHR 0x22] @ '':1}'')]]"
    by code_simp
  show ?thesis
    using snapshot_writes_each_entry [OF h1 h2, of sample_env snapshot_entries] tasks
    by simp
qed

section \<open>Properties of the one-shot build\<close>

lemma priv_build_stages:
  "priv_build e orc s cfg =
     (case before_bundling e orc s of
        (s3, Some x) \<Rightarrow> (s3, Some x)
      | (s3, None) \<Rightarrow>
          (case rollup_result orc of
             Some thrown \<Rightarrow>
               (emit ([LogStart ''Building server...'', Rollup cfg] @ fst (catch_handler e thrown)) s3,
                snd (catch_handler e thrown))
           | None \<Rightarrow>
               (write_bundle e cfg (emit [LogStart ''Building server...'', Rollup cfg] s3), None)))"
  by (simp add: priv_build_def before_bundling_def Let_def emit_def
        split: sum.splits prod.splits option.splits)






text \<open>
  Claim C10. The stages before the bundler have succeeded, the bundler fails and the
  formatting of the failure throws \<open>x\<close>. The exception \<open>x\<close> is dropped: \<open>_build\<close> keeps the
  diagnostics logged before it and raises the original failure, unchanged.
\<close>

theorem formatting_exception_is_dropped:
  assumes "before_bundling e orc s = (s3, None)"
      and "rollup_result orc = Some thrown"
      and "snd (try_block e thrown) = Some x"
  shows "priv_build e orc s cfg =
           (emit ([LogStart ''Building server...'', Rollup cfg] @ fst (try_block e thrown)) s3,
            Some (BundlerFailure thrown))"
  using assms by (simp add: priv_build_stages catch_handler_def)

theorem formatting_exception_is_dropped_witness:
  "try_block sample_env null_entry_failure =
     ([LogError (''Rollup error while processing `routes/a.ts:3:14`'' @ [CHR 0x0A, CHR 0x0A]
                 @ ''Unexpected token'')],
      Some (TypeError ''Cannot read properties of undefined (reading 'id')''))
   \<and> snd (priv_build sample_env (failing_build null_entry_failure) (sample_state sample_options [])
            (getRollupConfig sample_env (nitro (sample_state sample_options []))))
       = Some (BundlerFailure null_entry_failure)
   \<and> drop (length (effects (fst (before_bundling sample_env (failing_build null_entry_failure)
                                    (sample_state sample_options [])))))
          (effects (fst (priv_build sample_env (failing_build null_entry_failure) (sample_state sample_options [])
                           (getRollupConfig sample_env (nitro (sample_state sample_options []))))))
     = [LogStart ''Building server...'',
        Rollup (getRollupConfig sample_env (nitro (sample_state sample_options []))),
        LogError (''Rollup error while processing `routes/a.ts:3:14`'' @ [CHR 0x0A, CHR 0x0A]
                  @ ''Unexpected token'')]"
proof -
  have "snd (before_bundling sample_env (failing_build null_entry_failure) (sample_state sample_options [])) = None"
    by code_simp
  then have h1: "before_bundling sample_env (failing_build null_entry_failure) (sample_state sample_options [])
        = (fst (before_bundling sample_env (failing_build null_entry_failure) (sample_state sample_options [])), None)"
    by (metis prod.collapse)
  have h2: "rollup_result (failing_build null_entry_failure) = Some null_entry_failure"
    by (simp add: failing_build_def)
  have t: "try_block sample_env null_entry_failure =
     ([LogError (''Rollup error while processing `routes/a.ts:3:14`'' @ [CHR 0x0A, CHR 0x0A]
                 @ ''Unexpected token'')],
      Some (TypeError ''Cannot read properties of undefined (reading 'id')''))"
    by code_simp
  then have h3: "snd (try_block sample_env null_entry_failure)
                   = Some (TypeError ''Cannot read properties of undefined (reading 'id')'')"
    by simp
  show ?thesis
    using formatting_exception_is_dropped [OF h1 h2 h3] t
    by (simp add: emit_def)
qed

section \<open>Properties of watch mode\<close>

subsection \<open>Runs\<close>

lemma run_Nil [simp]: "run e ws [] = ws"
  by (simp add: run_def)

lemma run_Cons [simp]: "run e ws (i # inputs) = run e (step e ws i) inputs"
  by (simp add: run_def)

lemma run_append: "run e ws (xs @ ys) = run e (run e ws xs) ys"
  by (simp add: run_def)

lemma run_invariant:
  assumes "P ws" and "\<And>ws i. P ws \<Longrightarrow> P (step e ws i)"
  shows "P (run e ws inputs)"
  using assms(1)
proof (induction inputs arbitrary: ws)
  case Nil
  then show ?case by simp
next
  case (Cons i inputs)
  then show ?case using assms(2) by simp
qed

subsection \<open>Handles\<close>

lemma removeAll_only: "set xs \<subseteq> {h} \<Longrightarrow> removeAll h xs = []"
  by (induction xs) auto

lemma handles_tracked_on_all: "handles_tracked ws \<Longrightarrow> handles_tracked (on_all ev ws)"
  by (simp add: handles_tracked_def on_all_def reload_def effect_in_def)

lemma handles_tracked_begin: "handles_tracked ws \<Longrightarrow> handles_tracked (begin_reload (ws\<lparr>pending := False\<rparr>))"
  by (auto simp: handles_tracked_def begin_reload_def close_handle_def call_scanHandlers_def effect_in_def
        removeAll_only distinct_removeAll split: option.splits)

lemma handles_tracked_fail: "handles_tracked ws \<Longrightarrow> handles_tracked (fail_reload x ws)"
  by (simp add: handles_tracked_def fail_reload_def)

lemma handles_tracked_scan_call:
  "handles_tracked ws \<Longrightarrow> awaiting ws = AwaitClose \<Longrightarrow> handles_tracked (call_scanHandlers ws)"
  by (simp add: handles_tracked_def call_scanHandlers_def effect_in_def)

lemma after_scan_fields:
  "open_handles (after_scan e hs ws) = open_handles ws @ [next_handle ws]"
  "rollupWatcher (after_scan e hs ws) = Some (next_handle ws)"
  "awaiting (after_scan e hs ws) = Idle \<or> awaiting (after_scan e hs ws) = AwaitWriteTypes"
  by (auto simp: after_scan_def startRollupWatcher_def effect_in_def fail_reload_def Let_def
      split: prod.splits option.splits)

lemma handles_tracked_after_scan:
  "handles_tracked ws \<Longrightarrow> awaiting ws = AwaitScan \<Longrightarrow> handles_tracked (after_scan e hs ws)"
  using after_scan_fields [of e hs ws]
  by (auto simp: handles_tracked_def)

lemma handles_tracked_close_hook: "handles_tracked ws \<Longrightarrow> handles_tracked (fst (close_hook ws))"
  by (auto simp: handles_tracked_def close_hook_def close_handle_def effect_in_def
        removeAll_only distinct_removeAll split: option.splits)

lemma handles_tracked_step: "handles_tracked ws \<Longrightarrow> handles_tracked (step e ws i)"
proof (cases i)
  case (FsEvent ev)
  assume "handles_tracked ws"
  then show ?thesis using FsEvent by (simp add: handles_tracked_on_all)
next
  case DebounceFires
  assume "handles_tracked ws"
  then show ?thesis using DebounceFires by (simp add: handles_tracked_begin)
next
  case (CloseSettled r)
  assume "handles_tracked ws"
  then show ?thesis using CloseSettled
    by (simp add: handles_tracked_fail handles_tracked_scan_call split: option.splits)
next
  case (ScanSettled r)
  assume "handles_tracked ws"
  then show ?thesis using ScanSettled
    by (simp add: handles_tracked_fail handles_tracked_after_scan split: sum.splits)
next
  case WriteTypesSettled
  assume "handles_tracked ws"
  then show ?thesis using WriteTypesSettled by (simp add: handles_tracked_def)
next
  case CloseHook
  assume h: "handles_tracked ws"
  obtain ws' r where c: "close_hook ws = (ws', r)" by (cases "close_hook ws")
  then have "handles_tracked ws'" using handles_tracked_close_hook [OF h] by simp
  then show ?thesis using CloseHook c by (cases r) (simp_all add: handles_tracked_def)
qed

lemma handles_tracked_initial: "handles_tracked (priv_watch e s cfg)"
  by (simp add: handles_tracked_def priv_watch_def reload_def effect_in_def)

lemma handles_tracked_run: "handles_tracked (run e (priv_watch e s cfg) inputs)"
  by (rule run_invariant [where P = handles_tracked, OF handles_tracked_initial handles_tracked_step])

lemma handles_tracked_at_most_one: "handles_tracked ws \<Longrightarrow> length (open_handles ws) \<le> 1"
proof -
  assume h: "handles_tracked ws"
  then have d: "distinct (open_handles ws)" and s: "set (open_handles ws) \<subseteq> set_option (rollupWatcher ws)"
    by (simp_all add: handles_tracked_def)
  have "card (set_option (rollupWatcher ws)) \<le> 1" by (cases "rollupWatcher ws") simp_all
  moreover have "card (set (open_handles ws)) \<le> card (set_option (rollupWatcher ws))"
    using s by (intro card_mono) (cases "rollupWatcher ws", simp_all)
  ultimately show ?thesis using d by (simp add: distinct_card)
qed

subsection \<open>What a reload emits after the scan\<close>

lemma watch_calls_append [simp]: "watch_calls (xs @ ys) = watch_calls xs @ watch_calls ys"
  by (induction xs rule: watch_calls.induct) simp_all

lemma writeTypes_emitted: "emitted (writeTypes e) s = manifest_writes e (nitro s)"
proof (cases "\<exists>mw \<in> set (middleware (nitro s)). contributes mw \<and> the (route mw) \<in> set inherited_names")
  case True
  then have "collect_routeTypes e (nitro s) (middleware (nitro s)) []
               = Inl (TypeError ''routeTypes[mw.route].push is not a function'')"
    by (intro collect_routeTypes_fails) simp_all
  then show ?thesis using True by (simp add: writeTypes_unfold emitted_def manifest_writes_def)
next
  case False
  then have "collect_routeTypes e (nitro s) (middleware (nitro s)) (grouped e (nitro s) [])
               = Inr (grouped e (nitro s) ([] @ middleware (nitro s)))"
    by (intro collect_routeTypes_grouped) blast
  then show ?thesis using False by (simp add: writeTypes_unfold emitted_def manifest_writes_def)
qed

lemma writeTypes_appends: "effects (fst (writeTypes e s)) = effects s @ manifest_writes e (nitro s)"
  using writeTypes_emitted [of e s]
  by (cases "collect_routeTypes e (nitro s) (middleware (nitro s)) []")
     (simp_all add: writeTypes_unfold emitted_def emit_def)

lemma watch_calls_manifest_writes [simp]: "watch_calls (manifest_writes e n) = []"
  by (simp add: manifest_writes_def)

lemma after_scan_effects:
  "effects (st (after_scan e hs ws)) =
     effects (st ws)
     @ RollupWatch (rollupConfig ws) (watchOptions (options (nitro (st ws)))) (next_handle ws)
       # manifest_writes e (nitro (scanned hs (st ws)))"
proof -
  let ?started = "startRollupWatcher (ws\<lparr>st := scanned hs (st ws)\<rparr>)"
  have n: "nitro (st ?started) = nitro (scanned hs (st ws))"
    by (simp add: startRollupWatcher_def effect_in_def emit_def)
  have e0: "effects (st ?started) = effects (st ws)
      @ [RollupWatch (rollupConfig ws) (watchOptions (options (nitro (st ws)))) (next_handle ws)]"
    by (simp add: startRollupWatcher_def effect_in_def emit_def scanned_def)
  obtain s' r where wt: "writeTypes e (st ?started) = (s', r)" by (cases "writeTypes e (st ?started)")
  then have "effects s' = effects (st ?started) @ manifest_writes e (nitro (scanned hs (st ws)))"
    using writeTypes_appends [of e "st ?started"] n by simp
  then show ?thesis
    using wt e0 by (cases r) (simp_all add: after_scan_def Let_def fail_reload_def)
qed

lemma after_scan_kept:
  "rollupConfig (after_scan e hs ws) = rollupConfig ws"
  "options (nitro (st (after_scan e hs ws))) = options (nitro (st ws))"
  "next_handle (after_scan e hs ws) = Suc (next_handle ws)"
proof -
  let ?started = "startRollupWatcher (ws\<lparr>st := scanned hs (st ws)\<rparr>)"
  obtain s' r where wt: "writeTypes e (st ?started) = (s', r)" by (cases "writeTypes e (st ?started)")
  then have n: "nitro s' = nitro (st ?started)" using writeTypes_nitro [of e "st ?started"] by simp
  show "rollupConfig (after_scan e hs ws) = rollupConfig ws"
    using wt by (cases r) (simp_all add: after_scan_def Let_def fail_reload_def startRollupWatcher_def effect_in_def)
  show "options (nitro (st (after_scan e hs ws))) = options (nitro (st ws))"
    using wt n
    by (cases r) (simp_all add: after_scan_def Let_def fail_reload_def startRollupWatcher_def
                     effect_in_def emit_def scanned_def)
  show "next_handle (after_scan e hs ws) = Suc (next_handle ws)"
    using wt by (cases r) (simp_all add: after_scan_def Let_def fail_reload_def startRollupWatcher_def effect_in_def)
qed

lemma step_after_scan_settled:
  "effects (st (step e (after_scan e hs ws) WriteTypesSettled)) = effects (st (after_scan e hs ws))"
  "awaiting (step e (after_scan e hs ws) WriteTypesSettled) = Idle"
  using after_scan_fields(3) [of e hs ws] by auto

subsection \<open>The configuration\<close>

lemma config_kept_on_all: "config_kept cfg opts before ws \<Longrightarrow> config_kept cfg opts before (on_all ev ws)"
  by (simp add: config_kept_def on_all_def reload_def effect_in_def emit_def)

lemma config_kept_begin:
  "config_kept cfg opts before ws \<Longrightarrow> config_kept cfg opts before (begin_reload (ws\<lparr>pending := False\<rparr>))"
  by (simp add: config_kept_def begin_reload_def close_handle_def call_scanHandlers_def
        effect_in_def emit_def split: option.splits)

lemma config_kept_fail: "config_kept cfg opts before ws \<Longrightarrow> config_kept cfg opts before (fail_reload x ws)"
  by (simp add: config_kept_def fail_reload_def)

lemma config_kept_scan_call:
  "config_kept cfg opts before ws \<Longrightarrow> config_kept cfg opts before (call_scanHandlers ws)"
  by (simp add: config_kept_def call_scanHandlers_def effect_in_def emit_def)

lemma config_kept_after_scan:
  "config_kept cfg opts before ws \<Longrightarrow> config_kept cfg opts before (after_scan e hs ws)"
  by (simp add: config_kept_def after_scan_effects after_scan_kept replicate_append_same)

lemma config_kept_close_hook:
  "config_kept cfg opts before ws \<Longrightarrow> config_kept cfg opts before (fst (close_hook ws))"
  by (simp add: config_kept_def close_hook_def close_handle_def effect_in_def emit_def split: option.splits)

lemma config_kept_step: "config_kept cfg opts before ws \<Longrightarrow> config_kept cfg opts before (step e ws i)"
proof (cases i)
  case (FsEvent ev)
  assume "config_kept cfg opts before ws"
  then show ?thesis using FsEvent by (simp add: config_kept_on_all)
next
  case DebounceFires
  assume "config_kept cfg opts before ws"
  then show ?thesis using DebounceFires by (simp add: config_kept_begin)
next
  case (CloseSettled r)
  assume "config_kept cfg opts before ws"
  then show ?thesis using CloseSettled
    by (simp add: config_kept_fail config_kept_scan_call split: option.splits)
next
  case (ScanSettled r)
  assume "config_kept cfg opts before ws"
  then show ?thesis using ScanSettled
    by (simp add: config_kept_fail config_kept_after_scan split: sum.splits)
next
  case WriteTypesSettled
  assume "config_kept cfg opts before ws"
  then show ?thesis using WriteTypesSettled by (simp add: config_kept_def)
next
  case CloseHook
  assume h: "config_kept cfg opts before ws"
  obtain ws' r where c: "close_hook ws = (ws', r)" by (cases "close_hook ws")
  then have "config_kept cfg opts before ws'" using config_kept_close_hook [OF h] by simp
  then show ?thesis using CloseHook c by (cases r) (simp_all add: config_kept_def)
qed

lemma config_kept_initial:
  "config_kept cfg (options (nitro s)) (watch_calls (effects s)) (priv_watch e s cfg)"
  by (simp add: config_kept_def priv_watch_def reload_def effect_in_def emit_def)

lemma config_kept_run:
  "config_kept cfg (options (nitro s)) (watch_calls (effects s)) (run e (priv_watch e s cfg) inputs)"
  by (rule run_invariant [where P = "config_kept cfg (options (nitro s)) (watch_calls (effects s))",
        OF config_kept_initial config_kept_step])

subsection \<open>One execution of the reload function\<close>

lemma call_scanHandlers_fields [simp]:
  "effects (st (call_scanHandlers ws)) = effects (st ws) @ [ScanHandlers]"
  "nitro (st (call_scanHandlers ws)) = nitro (st ws)"
  "awaiting (call_scanHandlers ws) = AwaitScan"
  "rollupConfig (call_scanHandlers ws) = rollupConfig ws"
  "next_handle (call_scanHandlers ws) = next_handle ws"
  by (simp_all add: call_scanHandlers_def effect_in_def emit_def)

lemma fail_reload_fields [simp]:
  "effects (st (fail_reload x ws)) = effects (st ws)"
  "awaiting (fail_reload x ws) = Idle"
  by (simp_all add: fail_reload_def)

lemma scanned_nitro: "nitro s' = nitro s \<Longrightarrow> nitro (scanned hs s') = nitro (scanned hs s)"
  by (simp add: scanned_def)

lemma reload_execution_effects:
  assumes i: "awaiting ws = Idle" and p: "pending ws"
  shows "effects (st (run e ws (reload_execution ws closed scan))) =
           effects (st ws)
           @ (case rollupWatcher ws of Some h \<Rightarrow> [WatcherClose h] | None \<Rightarrow> [])
           @ (if rollupWatcher ws \<noteq> None \<and> closed \<noteq> None then []
              else ScanHandlers #
                   (case scan of
                      Inl x \<Rightarrow> []
                    | Inr hs \<Rightarrow>
                        RollupWatch (rollupConfig ws) (watchOptions (options (nitro (st ws)))) (next_handle ws)
                        # manifest_writes e (nitro (scanned hs (st ws)))))"
    and "awaiting (run e ws (reload_execution ws closed scan)) = Idle"
proof -
  let ?begun = "begin_reload (ws\<lparr>pending := False\<rparr>)"
  have "effects (st (run e ws (reload_execution ws closed scan))) =
           effects (st ws)
           @ (case rollupWatcher ws of Some h \<Rightarrow> [WatcherClose h] | None \<Rightarrow> [])
           @ (if rollupWatcher ws \<noteq> None \<and> closed \<noteq> None then []
              else ScanHandlers #
                   (case scan of
                      Inl x \<Rightarrow> []
                    | Inr hs \<Rightarrow>
                        RollupWatch (rollupConfig ws) (watchOptions (options (nitro (st ws)))) (next_handle ws)
                        # manifest_writes e (nitro (scanned hs (st ws)))))
         \<and> awaiting (run e ws (reload_execution ws closed scan)) = Idle"
  proof (cases "rollupWatcher ws")
    case None
    let ?a = "call_scanHandlers (ws\<lparr>pending := False\<rparr>)"
    have n: "nitro (scanned hs (st ?a)) = nitro (scanned hs (st ws))" for hs
      by (rule scanned_nitro) simp
    show ?thesis
    proof (cases scan)
      case (Inl x)
      then show ?thesis using None i p by (simp add: reload_execution_def begin_reload_def)
    next
      case (Inr hs)
      then have "run e ws (reload_execution ws closed scan) = step e (after_scan e hs ?a) WriteTypesSettled"
        using None i p by (simp add: reload_execution_def begin_reload_def)
      then show ?thesis
        using None Inr n [of hs]
        by (simp add: step_after_scan_settled after_scan_effects del: step.simps)
    qed
  next
    case (Some h)
    let ?c = "(close_handle h (ws\<lparr>pending := False\<rparr>))\<lparr>awaiting := AwaitClose\<rparr>"
    let ?a = "call_scanHandlers ?c"
    have c: "effects (st ?c) = effects (st ws) @ [WatcherClose h]" "awaiting ?c = AwaitClose"
      "nitro (st ?c) = nitro (st ws)" "rollupConfig ?c = rollupConfig ws" "next_handle ?c = next_handle ws"
      by (simp_all add: close_handle_def effect_in_def emit_def)
    have n: "nitro (scanned hs (st ?a)) = nitro (scanned hs (st ws))" for hs
      by (rule scanned_nitro) (simp add: close_handle_def effect_in_def emit_def)
    show ?thesis
    proof (cases closed)
      case (Some x)
      then show ?thesis
        using \<open>rollupWatcher ws = Some h\<close> i p c
        by (simp add: reload_execution_def begin_reload_def)
    next
      case None
      show ?thesis
      proof (cases scan)
        case (Inl x)
        then show ?thesis
          using \<open>rollupWatcher ws = Some h\<close> None i p c
          by (simp add: reload_execution_def begin_reload_def)
      next
        case (Inr hs)
        then have "run e ws (reload_execution ws closed scan) = step e (after_scan e hs ?a) WriteTypesSettled"
          using \<open>rollupWatcher ws = Some h\<close> None i p c
          by (simp add: reload_execution_def begin_reload_def)
        then show ?thesis
          using \<open>rollupWatcher ws = Some h\<close> None Inr n [of hs] c
          by (simp add: step_after_scan_settled after_scan_effects del: step.simps)
      qed
    qed
  qed
  then show "effects (st (run e ws (reload_execution ws closed scan))) =
           effects (st ws)
           @ (case rollupWatcher ws of Some h \<Rightarrow> [WatcherClose h] | None \<Rightarrow> [])
           @ (if rollupWatcher ws \<noteq> None \<and> closed \<noteq> None then []
              else ScanHandlers #
                   (case scan of
                      Inl x \<Rightarrow> []
                    | Inr hs \<Rightarrow>
                        RollupWatch (rollupConfig ws) (watchOptions (options (nitro (st ws)))) (next_handle ws)
                        # manifest_writes e (nitro (scanned hs (st ws)))))"
    and "awaiting (run e ws (reload_execution ws closed scan)) = Idle"
    by simp_all
qed

lemma reload_adds_one_call:
  assumes "awaiting ws = Idle" and "pending ws"
  shows "watch_calls (effects (st (run e ws (reload_execution ws None (Inr hs))))) =
           watch_calls (effects (st ws)) @ [(rollupConfig ws, watchOptions (options (nitro (st ws))))]"
  by (cases "rollupWatcher ws") (simp_all add: reload_execution_effects(1) [OF assms])

subsection \<open>The two claims about a reload\<close>

text \<open>
  Claim C1, as amended. In watch mode \<open>build\<close> derives the bundler configuration from the
  build context once and starts the watch session with it. Whatever happens afterwards,
  the closure keeps that value, and \<open>rollup.watch\<close> has been called once per handle handed
  out, each time with that value and the watch options of the build context. A reload
  whose close and scan succeed makes exactly one more call, with that same value merged
  with the watch options the build context holds at that moment.
\<close>

theorem watch_passes_initial_config:
  assumes "dev (options (nitro s))"
  shows "build e orc s = Watching (watch_session e s)
         \<and> rollupConfig (run e (watch_session e s) inputs) = getRollupConfig e (nitro s)
         \<and> watch_calls (effects (st (run e (watch_session e s) inputs))) =
             watch_calls (effects s)
             @ replicate (next_handle (run e (watch_session e s) inputs))
                 (getRollupConfig e (nitro s),
                  watchOptions (options (nitro (st (run e (watch_session e s) inputs)))))
         \<and> (awaiting (run e (watch_session e s) inputs) = Idle \<and> pending (run e (watch_session e s) inputs)
              \<longrightarrow> watch_calls (effects (st (run e (run e (watch_session e s) inputs)
                                   (reload_execution (run e (watch_session e s) inputs) None (Inr hs))))) =
                    watch_calls (effects (st (run e (watch_session e s) inputs)))
                    @ [(getRollupConfig e (nitro s),
                        watchOptions (options (nitro (st (run e (watch_session e s) inputs)))))])"
proof -
  let ?s1 = "emit [CallHook ''rollup:before''] s"
  let ?cfg = "getRollupConfig e (nitro s)"
  let ?ws = "run e (watch_session e s) inputs"
  have b: "build e orc s = Watching (watch_session e s)"
    using assms by (simp add: build_def watch_session_def Let_def emit_def)
  have "config_kept ?cfg (options (nitro ?s1)) (watch_calls (effects ?s1)) (run e (priv_watch e ?s1 ?cfg) inputs)"
    by (rule config_kept_run)
  then have k: "config_kept ?cfg (options (nitro s)) (watch_calls (effects s)) ?ws"
    by (simp add: watch_session_def emit_def)
  then have c: "rollupConfig ?ws = ?cfg" and o: "options (nitro (st ?ws)) = options (nitro s)"
    and w: "watch_calls (effects (st ?ws)) =
              watch_calls (effects s) @ replicate (next_handle ?ws) (?cfg, watchOptions (options (nitro s)))"
    by (simp_all add: config_kept_def)
  show ?thesis
    using b c o w reload_adds_one_call [of ?ws e hs] by simp
qed

theorem watch_passes_initial_config_witness:
  "build sample_env quiet_oracle (sample_state dev_options [])
     = Watching (watch_session sample_env (sample_state dev_options []))
   \<and> watch_calls (effects (st reloaded_once)) =
       [(RollupConfig (JStr ''/app/.output/server'') (JArr []), JObj [(''ignoreInitial'', JBool True)])]
   \<and> watch_calls (effects (st (run sample_env reloaded_once
                                  (reload_execution reloaded_once None (Inr handlers_2_1))))) =
       [(RollupConfig (JStr ''/app/.output/server'') (JArr []), JObj [(''ignoreInitial'', JBool True)]),
        (RollupConfig (JStr ''/app/.output/server'') (JArr []), JObj [(''ignoreInitial'', JBool True)])]"
proof -
  have d: "dev (options (nitro (sample_state dev_options [])))"
    by (simp add: sample_state_def dev_options_def)
  have h: "awaiting reloaded_once = Idle \<and> pending reloaded_once" by code_simp
  have f1: "next_handle reloaded_once = 1" by code_simp
  have f2: "watchOptions (options (nitro (st reloaded_once))) = JObj [(''ignoreInitial'', JBool True)]"
    by code_simp
  have f3: "getRollupConfig sample_env (nitro (sample_state dev_options []))
              = RollupConfig (JStr ''/app/.output/server'') (JArr [])"
    by code_simp
  have f4: "watch_calls (effects (sample_state dev_options [])) = []"
    by (simp add: sample_state_def)
  show ?thesis
    using watch_passes_initial_config [OF d, of sample_env quiet_oracle
            "[DebounceFires, ScanSettled (Inr handlers_a_b), WriteTypesSettled, FsEvent ''unlink'']"
            handlers_2_1, folded reloaded_once_def]
      h f1 f2 f3 f4
    by simp
qed

text \<open>
  Claim C1 as stated fails. In the sample environment the configuration depends on the
  handlers of the build context. The session starts with no handler, the first reload
  finds the routes \<open>/a\<close> and \<open>/b\<close>, the second the routes \<open>2\<close> and \<open>1\<close>. Both bundler-watch
  sessions are given the configuration built at the start, for no handler; derived again
  from the build context, it would name the two routes.
\<close>

theorem config_rederived_counterexample:
  "build sample_env quiet_oracle (sample_state dev_options []) =
     Watching (priv_watch sample_env (emit [CallHook ''rollup:before''] (sample_state dev_options []))
                 (RollupConfig (JStr ''/app/.output/server'') (JArr [])))
   \<and> watch_configs (effects (st (run sample_env
         (priv_watch sample_env (emit [CallHook ''rollup:before''] (sample_state dev_options []))
            (RollupConfig (JStr ''/app/.output/server'') (JArr [])))
         [DebounceFires, ScanSettled (Inr handlers_a_b), WriteTypesSettled, FsEvent ''add'',
          DebounceFires, CloseSettled None, ScanSettled (Inr handlers_2_1), WriteTypesSettled])))
       = [RollupConfig (JStr ''/app/.output/server'') (JArr []),
          RollupConfig (JStr ''/app/.output/server'') (JArr [])]
   \<and> getRollupConfig sample_env (nitro (st (run sample_env
         (priv_watch sample_env (emit [CallHook ''rollup:before''] (sample_state dev_options []))
            (RollupConfig (JStr ''/app/.output/server'') (JArr [])))
         [DebounceFires, ScanSettled (Inr handlers_a_b), WriteTypesSettled, FsEvent ''add'',
          DebounceFires, CloseSettled None, ScanSettled (Inr handlers_2_1), WriteTypesSettled])))
       = RollupConfig (JStr ''/app/.output/server'') (JArr [JStr ''2'', JStr ''1''])"
  by code_simp

text \<open>
  Claim C5, as amended. An execution of the reload function that starts from rest calls
  \<open>close()\<close> on the handle in \<open>rollupWatcher\<close> if there is one, then \<open>scanHandlers\<close>, then
  \<open>rollup.watch\<close> with the configuration of the closure, then writes the type manifest, in
  this order, and stops at the first of these that fails: after a rejected \<open>close()\<close>
  nothing follows, after a rejected scan no session is started and no manifest written,
  and the manifest writer writes nothing when it throws. Every such execution ends at
  rest. And whatever the events, hooks and settlements that follow the start of \<open>_watch\<close>,
  and however they interleave with the executions of the reload function, at most one
  bundler-watch handle is open.
\<close>

theorem reload_order_and_single_handle:
  assumes "awaiting ws = Idle" and "pending ws"
  shows "(rollupWatcher ws \<noteq> None \<and> closed \<noteq> None \<longrightarrow>
            effects (st (run e ws (reload_execution ws closed scan))) =
              effects (st ws) @ (case rollupWatcher ws of Some h \<Rightarrow> [WatcherClose h] | None \<Rightarrow> []))
         \<and> (rollupWatcher ws = None \<or> closed = None \<longrightarrow>
            effects (st (run e ws (reload_execution ws closed scan))) =
              effects (st ws)
              @ (case rollupWatcher ws of Some h \<Rightarrow> [WatcherClose h] | None \<Rightarrow> [])
              @ [ScanHandlers]
              @ (case scan of
                   Inl x \<Rightarrow> []
                 | Inr hs \<Rightarrow>
                     RollupWatch (rollupConfig ws) (watchOptions (options (nitro (st ws)))) (next_handle ws)
                     # manifest_writes e (nitro (scanned hs (st ws)))))
         \<and> awaiting (run e ws (reload_execution ws closed scan)) = Idle
         \<and> length (open_handles (run e (priv_watch e s cfg) inputs)) \<le> 1"
  using reload_execution_effects [OF assms, of e closed scan]
    handles_tracked_at_most_one [OF handles_tracked_run, of e s cfg inputs]
  by auto

theorem reload_order_and_single_handle_witness:
  "effects (st (run sample_env reloaded_once (reload_execution reloaded_once None (Inr handlers_2_1))))
     = effects (st reloaded_once)
       @ [WatcherClose 0, ScanHandlers,
          RollupWatch (RollupConfig (JStr ''/app/.output/server'') (JArr []))
            (JObj [(''ignoreInitial'', JBool True)]) 1,
          UtilsWriteFile ''/app/.nitro/types/nitro.d.ts''
            (js_join [CHR 0x0A]
               [''// Generated by nitro'',
                ''declare module 'nitropack' {'',
                ''  type Awaited<T> = T extends PromiseLike<infer U> ? Awaited<U> : T'',
                ''  interface InternalApi {'',
                ''    '1': Awaited<ReturnType<typeof import('../../routes/one').default>>'',
                ''    '2': Awaited<ReturnType<typeof import('../../routes/two').default>>'',
                ''  }'',
                ''}'',
                ''export {}''])]
   \<and> effects (st (run sample_env reloaded_once
                     (reload_execution reloaded_once (Some (Rejected ''close'')) (Inr handlers_2_1))))
     = effects (st reloaded_once) @ [WatcherClose 0]
   \<and> length (open_handles
        (run sample_env
           (priv_watch sample_env (sample_state dev_options [])
              (getRollupConfig sample_env (nitro (sample_state dev_options []))))
           [DebounceFires, ScanSettled (Inr handlers_a_b), WriteTypesSettled, FsEvent ''unlink'',
            DebounceFires, CloseSettled None, ScanSettled (Inr handlers_2_1)])) \<le> 1"
proof -
  have h1: "awaiting reloaded_once = Idle" by code_simp
  have h2: "pending reloaded_once" by code_simp
  have f1: "rollupWatcher reloaded_once = Some 0" by code_simp
  have f2: "rollupConfig reloaded_once = RollupConfig (JStr ''/app/.output/server'') (JArr [])"
    by code_simp
  have f3: "next_handle reloaded_once = 1" by code_simp
  have f4: "watchOptions (options (nitro (st reloaded_once))) = JObj [(''ignoreInitial'', JBool True)]"
    by code_simp
  have f5: "manifest_writes sample_env (nitro (scanned handlers_2_1 (st reloaded_once))) =
     [UtilsWriteFile ''/app/.nitro/types/nitro.d.ts''
            (js_join [CHR 0x0A]
               [''// Generated by nitro'',
                ''declare module 'nitropack' {'',
                ''  type Awaited<T> = T extends PromiseLike<infer U> ? Awaited<U> : T'',
                ''  interface InternalApi {'',
                ''    '1': Awaited<ReturnType<typeof import('../../routes/one').default>>'',
                ''    '2': Awaited<ReturnType<typeof import('../../routes/two').default>>'',
                ''  }'',
                ''}'',
                ''export {}''])]"
    by code_simp
  have a: "effects (st (run sample_env reloaded_once (reload_execution reloaded_once None (Inr handlers_2_1))))
     = effects (st reloaded_once)
       @ [WatcherClose 0, ScanHandlers,
          RollupWatch (RollupConfig (JStr ''/app/.output/server'') (JArr []))
            (JObj [(''ignoreInitial'', JBool True)]) 1]
       @ manifest_writes sample_env (nitro (scanned handlers_2_1 (st reloaded_once)))"
    using reload_order_and_single_handle [OF h1 h2, of None sample_env "Inr handlers_2_1"] f1 f2 f3 f4
    by simp
  have b: "effects (st (run sample_env reloaded_once
                     (reload_execution reloaded_once (Some (Rejected ''close'')) (Inr handlers_2_1))))
     = effects (st reloaded_once) @ [WatcherClose 0]
     \<and> length (open_handles
        (run sample_env
           (priv_watch sample_env (sample_state dev_options [])
              (getRollupConfig sample_env (nitro (sample_state dev_options []))))
           [DebounceFires, ScanSettled (Inr handlers_a_b), WriteTypesSettled, FsEvent ''unlink'',
            DebounceFires, CloseSettled None, ScanSettled (Inr handlers_2_1)])) \<le> 1"
    using reload_order_and_single_handle [OF h1 h2, of "Some (Rejected ''close'')" sample_env
            "Inr handlers_2_1" "sample_state dev_options []"
            "getRollupConfig sample_env (nitro (sample_state dev_options []))"
            "[DebounceFires, ScanSettled (Inr handlers_a_b), WriteTypesSettled, FsEvent ''unlink'',
              DebounceFires, CloseSettled None, ScanSettled (Inr handlers_2_1)]"] f1
    by simp
  show ?thesis using a b by (simp add: f5)
qed

text \<open>
  Claim C5 as stated fails. A handle is open and a reload is pending; the execution
  closes the handle and calls \<open>scanHandlers\<close>, which rejects. The execution ends there, with
  the rejection unhandled: it has started no bundler-watch session and has not rewritten
  the type manifest.
\<close>

theorem reload_stops_at_failure_counterexample:
  "awaiting reloaded_once = Idle
   \<and> pending reloaded_once
   \<and> rollupWatcher reloaded_once = Some 0
   \<and> effects (st (run sample_env reloaded_once
        [DebounceFires, CloseSettled None, ScanSettled (Inl (Rejected ''scan'')), WriteTypesSettled]))
       = effects (st reloaded_once) @ [WatcherClose 0, ScanHandlers]
   \<and> awaiting (run sample_env reloaded_once
        [DebounceFires, CloseSettled None, ScanSettled (Inl (Rejected ''scan'')), WriteTypesSettled]) = Idle
   \<and> uncaught (run sample_env reloaded_once
        [DebounceFires, CloseSettled None, ScanSettled (Inl (Rejected ''scan'')), WriteTypesSettled])
       = [Rejected ''scan'']
   \<and> open_handles (run sample_env reloaded_once
        [DebounceFires, CloseSettled None, ScanSettled (Inl (Rejected ''scan'')), WriteTypesSettled]) = []"
  by code_simp

subsection \<open>The close hook and the outer watcher\<close>

lemma close_hook_closes_both:
  assumes "rollupWatcher ws = Some h"
  shows "snd (close_hook ws) = None"
    and "h \<notin> set (open_handles (fst (close_hook ws)))"
    and "\<not> reloadWacher_open (fst (close_hook ws))"
    and "effects (st (fst (close_hook ws))) = effects (st ws) @ [WatcherClose h, ChokidarClose]"
  using assms by (simp_all add: close_hook_def close_handle_def effect_in_def emit_def)

lemma close_hook_again:
  assumes "rollupWatcher ws = Some h"
  shows "snd (close_hook (fst (close_hook ws))) = None"
    and "open_handles (fst (close_hook (fst (close_hook ws)))) = open_handles (fst (close_hook ws))"
    and "reloadWacher_open (fst (close_hook (fst (close_hook ws)))) = reloadWacher_open (fst (close_hook ws))"
  using assms by (simp_all add: close_hook_def close_handle_def effect_in_def)

text \<open>
  Claim C2 at a failing input. The \<open>close\<close> hook runs before the first execution of the
  reload function has assigned \<open>rollupWatcher\<close>: right after \<open>_watch\<close> has registered the
  listener, or while the first scan is awaited. \<open>rollupWatcher.close()\<close> throws a
  \<open>TypeError\<close>, \<open>reloadWacher.close()\<close> is not reached and the outer watcher stays open.
\<close>

theorem close_hook_without_watcher_throws:
  "close_hook (priv_watch e s cfg) =
     (priv_watch e s cfg, Some (TypeError ''Cannot read properties of undefined (reading 'close')''))
   \<and> uncaught (run e (priv_watch e s cfg) [DebounceFires, CloseHook]) =
       [TypeError ''Cannot read properties of undefined (reading 'close')'']
   \<and> reloadWacher_open (run e (priv_watch e s cfg) [DebounceFires, CloseHook])
   \<and> effects (st (run e (priv_watch e s cfg) [DebounceFires, CloseHook])) =
       effects s @ [ChokidarWatch (watchPatterns e (nitro s)), DebouncedReload, ScanHandlers]"
  by (simp add: close_hook_def priv_watch_def reload_def effect_in_def emit_def
        begin_reload_def call_scanHandlers_def)



end
